theory Spec2Isabelle
  imports Complex_Main
begin

section \<open>JavaScript values and strings\<close>

text \<open>
  The engine is written in JavaScript. Strings are modelled as lists of code units below
  256; objects used as dictionaries are association lists in insertion order. A finite
  number is represented by its mathematical value: rounding to binary64 and the sign of
  zero are not modelled. Arrays are outside the modelled value universe; \<open>Obj\<close> is a
  plain (non-array) object.
\<close>

datatype jsnum = NaN | PosInf | NegInf | Fin rat

datatype jsval = Undefined | Null | Bool bool | Num jsnum | Str string | Obj

type_synonym 'v obj = "(string \<times> 'v) list"

definition quote :: char where
  "quote = CHR 0x27"

definition backslash :: char where
  "backslash = CHR 0x5C"

definition isLineTerminator :: "char \<Rightarrow> bool" where
  "isLineTerminator c \<longleftrightarrow> c = CHR 0x0A \<or> c = CHR 0x0D"

definition isStrWhiteSpaceChar :: "char \<Rightarrow> bool" where
  "isStrWhiteSpaceChar c \<longleftrightarrow>
     c = CHR 0x09 \<or> c = CHR 0x0A \<or> c = CHR 0x0B \<or> c = CHR 0x0C \<or> c = CHR 0x0D \<or>
     c = CHR 0x20 \<or> c = CHR 0xA0"

text \<open>\<open>String.prototype.trim\<close>: white space and line terminators go from both ends.\<close>

definition trimString :: "string \<Rightarrow> string" where
  "trimString s = rev (dropWhile isStrWhiteSpaceChar (rev (dropWhile isStrWhiteSpaceChar s)))"

definition startsWith :: "string \<Rightarrow> string \<Rightarrow> bool" where
  "startsWith s p \<longleftrightarrow> take (length p) s = p"

definition endsWith :: "string \<Rightarrow> string \<Rightarrow> bool" where
  "endsWith s p \<longleftrightarrow> length p \<le> length s \<and> drop (length s - length p) s = p"

text \<open>Object property write \<open>o[k] = v\<close> and read; \<open>{...a, ...b}\<close> is \<open>spread a b\<close>.\<close>

fun objSet :: "'v obj \<Rightarrow> string \<Rightarrow> 'v \<Rightarrow> 'v obj" where
  "objSet [] k v = [(k, v)]"
| "objSet ((k', v') # kvs) k v =
     (if k' = k then (k, v) # kvs else (k', v') # objSet kvs k v)"

definition objGet :: "'v obj \<Rightarrow> string \<Rightarrow> 'v option" where
  "objGet ob k = map_of ob k"

definition objKeys :: "'v obj \<Rightarrow> string list" where
  "objKeys ob = map fst ob"

fun spread :: "'v obj \<Rightarrow> 'v obj \<Rightarrow> 'v obj" where
  "spread a [] = a"
| "spread a ((k, v) # kvs) = spread (objSet a k v) kvs"

text \<open>
  \<open>foundry.utils.getProperty\<close> belongs to the host platform. The property bag is indexed
  here by the full dotted path, and a missing path reads as \<open>undefined\<close>.
\<close>

definition getProperty :: "jsval obj \<Rightarrow> string \<Rightarrow> jsval" where
  "getProperty ob k = (case objGet ob k of None \<Rightarrow> Undefined | Some v \<Rightarrow> v)"

subsection \<open>\<open>String.prototype.replace\<close> with a string pattern\<close>

fun splitAtFirst :: "string \<Rightarrow> string \<Rightarrow> (string \<times> string) option" where
  "splitAtFirst pat [] = (if pat = [] then Some ([], []) else None)"
| "splitAtFirst pat (c # cs) =
     (if take (length pat) (c # cs) = pat then Some ([], drop (length pat) (c # cs))
      else map_option (\<lambda>(b, a). (c # b, a)) (splitAtFirst pat cs))"

text \<open>
  A replacement string is expanded (\<open>GetSubstitution\<close>): \<open>$$\<close>, \<open>$&\<close>, \<open>$`\<close> and
  \<open>$'\<close> are special; with a string pattern there are no captures, so \<open>$1\<close> stays.
\<close>

fun getSubstitution :: "string \<Rightarrow> string \<Rightarrow> string \<Rightarrow> string \<Rightarrow> string" where
  "getSubstitution m b a [] = []"
| "getSubstitution m b a [c] = [c]"
| "getSubstitution m b a (c # d # r) =
     (if c = CHR ''$'' \<and> d = CHR ''$'' then CHR ''$'' # getSubstitution m b a r
      else if c = CHR ''$'' \<and> d = CHR ''&'' then m @ getSubstitution m b a r
      else if c = CHR ''$'' \<and> d = CHR 0x60 then b @ getSubstitution m b a r
      else if c = CHR ''$'' \<and> d = quote then a @ getSubstitution m b a r
      else c # getSubstitution m b a (d # r))"

definition replaceFirst :: "string \<Rightarrow> string \<Rightarrow> string \<Rightarrow> string" where
  "replaceFirst s pat rep =
     (case splitAtFirst pat s of
        None \<Rightarrow> s
      | Some (b, a) \<Rightarrow> b @ getSubstitution pat b a rep @ a)"

text \<open>With a function as replacement the returned text is inserted as it is.\<close>

definition replaceFirstWith :: "string \<Rightarrow> string \<Rightarrow> string \<Rightarrow> string" where
  "replaceFirstWith s pat rep =
     (case splitAtFirst pat s of
        None \<Rightarrow> s
      | Some (b, a) \<Rightarrow> b @ rep @ a)"

subsection \<open>Numbers and strings\<close>

definition digitOf :: "char \<Rightarrow> nat option" where
  "digitOf c =
     (let n = (of_char c :: nat) in
      if 48 \<le> n \<and> n \<le> 57 then Some (n - 48)
      else if 97 \<le> n \<and> n \<le> 102 then Some (n - 87)
      else if 65 \<le> n \<and> n \<le> 70 then Some (n - 55)
      else None)"

definition isDigitIn :: "nat \<Rightarrow> char \<Rightarrow> bool" where
  "isDigitIn base c = (case digitOf c of None \<Rightarrow> False | Some d \<Rightarrow> d < base)"

definition digitsValue :: "nat \<Rightarrow> string \<Rightarrow> nat" where
  "digitsValue base ds =
     foldl (\<lambda>acc c. base * acc + (case digitOf c of None \<Rightarrow> 0 | Some d \<Rightarrow> d)) 0 ds"

text \<open>
  \<open>Number(string)\<close> follows the \<open>StringNumericLiteral\<close> grammar of ECMAScript: optional
  white space around nothing (the value is 0), a signed decimal literal or \<open>Infinity\<close>, or
  an unsigned hexadecimal, octal or binary integer; anything else is \<open>NaN\<close>.
\<close>

definition parseNonDecimal :: "string \<Rightarrow> nat option" where
  "parseNonDecimal s =
     (case s of
        z # p # ds \<Rightarrow>
          (let base = (if p = CHR ''x'' \<or> p = CHR ''X'' then 16
                       else if p = CHR ''o'' \<or> p = CHR ''O'' then 8
                       else if p = CHR ''b'' \<or> p = CHR ''B'' then 2 else (0::nat)) in
           if z = CHR ''0'' \<and> base \<noteq> 0 \<and> ds \<noteq> [] \<and> list_all (isDigitIn base) ds
           then Some (digitsValue base ds) else None)
      | _ \<Rightarrow> None)"

definition parseExponent :: "string \<Rightarrow> int option" where
  "parseExponent s =
     (case s of
        [] \<Rightarrow> Some 0
      | e # r \<Rightarrow>
          if e = CHR ''e'' \<or> e = CHR ''E'' then
            (let neg = (take 1 r = ''-'');
                 ds = (if take 1 r = ''-'' \<or> take 1 r = ''+'' then drop 1 r else r) in
             if ds \<noteq> [] \<and> list_all (isDigitIn 10) ds
             then Some (if neg then - int (digitsValue 10 ds) else int (digitsValue 10 ds))
             else None)
          else None)"

definition scaleByPowerOfTen :: "nat \<Rightarrow> int \<Rightarrow> rat" where
  "scaleByPowerOfTen m e =
     (if 0 \<le> e then of_nat m * 10 ^ nat e else of_nat m / 10 ^ nat (- e))"

definition parseUnsignedDecimal :: "string \<Rightarrow> jsnum" where
  "parseUnsignedDecimal s =
     (if s = ''Infinity'' then PosInf
      else
        (let ip = takeWhile (isDigitIn 10) s;
             r1 = dropWhile (isDigitIn 10) s;
             fp = (if take 1 r1 = ''.'' then takeWhile (isDigitIn 10) (drop 1 r1) else []);
             r2 = (if take 1 r1 = ''.'' then dropWhile (isDigitIn 10) (drop 1 r1) else r1) in
         if ip = [] \<and> fp = [] then NaN
         else (case parseExponent r2 of
                 None \<Rightarrow> NaN
               | Some e \<Rightarrow>
                   Fin (scaleByPowerOfTen (digitsValue 10 (ip @ fp)) (e - int (length fp))))))"

definition negateNum :: "jsnum \<Rightarrow> jsnum" where
  "negateNum n =
     (case n of NaN \<Rightarrow> NaN | PosInf \<Rightarrow> NegInf | NegInf \<Rightarrow> PosInf | Fin r \<Rightarrow> Fin (- r))"

definition StringToNumber :: "string \<Rightarrow> jsnum" where
  "StringToNumber str =
     (let s = trimString str in
      case s of
        [] \<Rightarrow> Fin 0
      | c # r \<Rightarrow>
          (case parseNonDecimal s of
             Some n \<Rightarrow> Fin (of_nat n)
           | None \<Rightarrow>
               if c = CHR ''-'' then negateNum (parseUnsignedDecimal r)
               else if c = CHR ''+'' then parseUnsignedDecimal r
               else parseUnsignedDecimal s))"

text \<open>\<open>Number(value)\<close>, the abstract operation \<open>ToNumber\<close>.\<close>

definition ToNumber :: "jsval \<Rightarrow> jsnum" where
  "ToNumber v =
     (case v of
        Undefined \<Rightarrow> NaN
      | Null \<Rightarrow> Fin 0
      | Bool b \<Rightarrow> (if b then Fin 1 else Fin 0)
      | Num n \<Rightarrow> n
      | Str s \<Rightarrow> StringToNumber s
      | Obj \<Rightarrow> NaN)"

definition nullish :: "jsval \<Rightarrow> bool" where
  "nullish v \<longleftrightarrow> v = Undefined \<or> v = Null"

text \<open>The operator \<open>a ?? b\<close>.\<close>

definition coalesce :: "jsval \<Rightarrow> jsval \<Rightarrow> jsval" where
  "coalesce a b = (if nullish a then b else a)"

definition isBoolean :: "jsval \<Rightarrow> bool" where
  "isBoolean v = (case v of Bool _ \<Rightarrow> True | _ \<Rightarrow> False)"

fun natToString :: "nat \<Rightarrow> string" where
  "natToString n =
     (if n < 10 then [char_of (48 + n)]
      else natToString (n div 10) @ [char_of (48 + n mod 10)])"

declare natToString.simps [simp del]

text \<open>
  \<open>ToString\<close>. An integral number below \<open>10^21\<close> in magnitude prints as a decimal
  integer; how any other finite number prints depends on its binary64 representation and
  is taken from the parameter \<open>fractionToString\<close>.
\<close>

definition numberToString :: "(rat \<Rightarrow> string) \<Rightarrow> jsnum \<Rightarrow> string" where
  "numberToString fractionToString n =
     (case n of
        NaN \<Rightarrow> ''NaN''
      | PosInf \<Rightarrow> ''Infinity''
      | NegInf \<Rightarrow> ''-Infinity''
      | Fin r \<Rightarrow>
          if of_int \<lfloor>r\<rfloor> = r \<and> \<bar>r\<bar> < 10 ^ 21
          then (if r < 0 then ''-'' else []) @ natToString (nat \<bar>\<lfloor>r\<rfloor>\<bar>)
          else fractionToString r)"

definition ToString :: "(rat \<Rightarrow> string) \<Rightarrow> jsval \<Rightarrow> string" where
  "ToString fractionToString v =
     (case v of
        Undefined \<Rightarrow> ''undefined''
      | Null \<Rightarrow> ''null''
      | Bool b \<Rightarrow> (if b then ''true'' else ''false'')
      | Num n \<Rightarrow> numberToString fractionToString n
      | Str s \<Rightarrow> s
      | Obj \<Rightarrow> ''[object Object]'')"

section \<open>Failures\<close>

text \<open>
  A JavaScript call returns or throws. The engine distinguishes its own
  \<open>UncomputableError\<close> (message, offending token, formula text) from every other error.
  \<open>Pending\<close> stands for a call that does not come back: an awaited promise that never
  settles (a dialog closed without an answer), or an evaluation that runs on.
\<close>

datatype uncomputable = UncomputableError string string string

datatype 'a outcome =
  Returns 'a | ThrowsUncomputable uncomputable | ThrowsError string | Pending

definition bindOutcome :: "'a outcome \<Rightarrow> ('a \<Rightarrow> 'b outcome) \<Rightarrow> 'b outcome" where
  "bindOutcome r f =
     (case r of
        Returns x \<Rightarrow> f x
      | ThrowsUncomputable e \<Rightarrow> ThrowsUncomputable e
      | ThrowsError e \<Rightarrow> ThrowsError e
      | Pending \<Rightarrow> Pending)"

section \<open>Numeric coercion and the lookup functions of \<open>Formula.computeStatic\<close>\<close>

text \<open>
  \<open>getNumberCastValue\<close> closes over \<open>defaultValue\<close> of the options; it is the first
  argument here.
\<close>

definition getNumberCastValue :: "jsval \<Rightarrow> jsval \<Rightarrow> jsval" where
  "getNumberCastValue defaultValue v =
     (if isBoolean v then v
      else if ToNumber v = NaN then coalesce v (coalesce defaultValue Null)
      else Num (ToNumber v))"

text \<open>A parameter declared \<open>fallbackValue = null\<close> is \<open>null\<close> when the argument is missing.\<close>

definition orNull :: "jsval \<Rightarrow> jsval" where
  "orNull v = (if v = Undefined then Null else v)"

text \<open>
  \<open>ref(valueRef, fallbackValue = null)\<close>. The write to \<open>computedTokens\<close> is left out: the
  object is copied into the evaluation scope before any lookup runs and is never read
  afterwards.
\<close>

definition ref ::
  "jsval \<Rightarrow> string list \<Rightarrow> string \<Rightarrow> jsval obj \<Rightarrow> string \<Rightarrow> jsval \<Rightarrow> jsval outcome" where
  "ref defaultValue availableKeys formula allValues valueRef fallbackArg =
     (let fallbackValue = orNull fallbackArg;
          returnValue0 = coalesce fallbackValue defaultValue;
          realValue = (if valueRef \<noteq> [] then getProperty allValues valueRef else Undefined);
          returnValue =
            (if valueRef \<noteq> []
             then coalesce (getNumberCastValue defaultValue realValue) returnValue0
             else returnValue0)
      in if returnValue = Undefined \<or> (realValue = Undefined \<and> valueRef \<in> set availableKeys)
         then ThrowsUncomputable
                (UncomputableError (''Uncomputable token ref('' @ valueRef @ '')'')
                   (''ref('' @ valueRef @ '')'') formula)
         else Returns returnValue)"

text \<open>
  \<open>sameRow(columnName, fallbackValue = null)\<close>; \<open>reference\<close> is the row reference of the
  options, already converted to a string by the concatenation.
\<close>

definition sameRow ::
  "jsval \<Rightarrow> string \<Rightarrow> string \<Rightarrow> jsval obj \<Rightarrow> string \<Rightarrow> jsval \<Rightarrow> jsval outcome" where
  "sameRow defaultValue reference formula allValues columnName fallbackArg =
     (let fallbackValue = orNull fallbackArg;
          fullReference = reference @ ''.'' @ columnName;
          returnValue =
            coalesce
              (coalesce (getNumberCastValue defaultValue (getProperty allValues fullReference))
                 fallbackValue)
              defaultValue
      in if returnValue = Undefined
         then ThrowsUncomputable
                (UncomputableError (''Uncomputable token sameRow('' @ columnName @ '')'')
                   (''sameRow('' @ columnName @ '')'') formula)
         else Returns returnValue)"

text \<open>\<open>first(list = [], fallbackValue = null)\<close>.\<close>

definition first :: "jsval \<Rightarrow> jsval list \<Rightarrow> jsval \<Rightarrow> jsval" where
  "first defaultValue list fallbackArg =
     (let returnValue = coalesce (orNull fallbackArg) defaultValue
      in if length list > 0 then getNumberCastValue defaultValue (hd list) else returnValue)"

text \<open>\<open>replace(text, pattern, replacement)\<close> for a string pattern and replacement.\<close>

definition replaceText :: "jsval \<Rightarrow> string \<Rightarrow> string \<Rightarrow> string \<Rightarrow> jsval" where
  "replaceText defaultValue txt pattern replacement =
     getNumberCastValue defaultValue (Str (replaceFirst txt pattern replacement))"

section \<open>Text-literal isolation: \<open>handleTextVars\<close>\<close>

text \<open>
  The matches of \<open>/(?<!\\)'.*?(?<!\\)'/g\<close> over a string, in order. \<open>closingQuote prev s\<close>
  runs the lazy \<open>.*?\<close> from just after an opening quote: it stops at the first quote not
  preceded by a backslash and fails at a line terminator, which \<open>.\<close> does not match.
\<close>

fun closingQuote :: "char \<Rightarrow> string \<Rightarrow> nat option" where
  "closingQuote prev [] = None"
| "closingQuote prev (c # cs) =
     (if c = quote \<and> prev \<noteq> backslash then Some 0
      else if isLineTerminator c then None
      else map_option Suc (closingQuote c cs))"

lemma closingQuote_bound: "closingQuote prev s = Some n \<Longrightarrow> n < length s"
  by (induction prev s arbitrary: n rule: closingQuote.induct) (auto split: if_splits)

function textTokensFrom :: "char option \<Rightarrow> string \<Rightarrow> string list" where
  "textTokensFrom prev [] = []"
| "textTokensFrom prev (c # cs) =
     (if c = quote \<and> prev \<noteq> Some backslash then
        (case closingQuote c cs of
           Some n \<Rightarrow> (c # take (Suc n) cs) # textTokensFrom (Some quote) (drop (Suc n) cs)
         | None \<Rightarrow> textTokensFrom (Some c) cs)
      else textTokensFrom (Some c) cs)"
  by pat_completeness auto
termination
  by (relation "measure (\<lambda>(prev, s). length s)") auto

definition textTokens :: "string \<Rightarrow> string list" where
  "textTokens formula = textTokensFrom None formula"

type_synonym textvars = "string obj"

text \<open>
  One turn of the \<open>while\<close> loop for each match. A match whose content holds a quote is
  stored under \<open>_computedText_N\<close>, \<open>N\<close> one more than the number of keys, with its first
  backslash removed, and the first occurrence of the matched text in the current formula is
  replaced by that name.
\<close>

fun textVarsLoop :: "string list \<Rightarrow> string \<times> textvars \<Rightarrow> string \<times> textvars" where
  "textVarsLoop [] acc = acc"
| "textVarsLoop (textToken # rest) (formula, textVars) =
     (let textValue = take (length textToken - 2) (drop 1 textToken) in
      if quote \<in> set textValue then
        (let textRef = ''_computedText_'' @ natToString (length (objKeys textVars) + 1);
             textVars' = objSet textVars textRef (replaceFirst textValue [backslash] []);
             formula' = replaceFirst formula textToken textRef
         in textVarsLoop rest (formula', textVars'))
      else textVarsLoop rest (formula, textVars))"

definition handleTextVars :: "string \<Rightarrow> textvars \<Rightarrow> string \<times> textvars" where
  "handleTextVars formula textVars = textVarsLoop (textTokens formula) (formula, textVars)"

section \<open>Block extraction: \<open>ComputablePhrase._extractFormulas\<close>\<close>

datatype block_type = formulaType | scriptType

record extract_state =
  nFormulaBrackets :: int
  nScriptBrackets :: int
  extracted :: "string list"
  currentExtract :: string
  extracting :: "block_type option"

text \<open>
  The body of the \<open>for\<close> loop at one index: \<open>currentChar\<close> and the rest of the expression
  after it (\<open>charAt\<close> past the end is the empty string).
\<close>

definition extractStep :: "char \<Rightarrow> string \<Rightarrow> extract_state \<Rightarrow> extract_state" where
  "extractStep currentChar rest st =
    (let currentPair = currentChar # take 1 rest;
         st1 =
          (if currentPair = ''${'' then
             st\<lparr>nFormulaBrackets := nFormulaBrackets st + 1,
                extracting := (if extracting st = None then Some formulaType else extracting st)\<rparr>
           else if currentPair = ''%{'' then
             st\<lparr>nScriptBrackets := nScriptBrackets st + 1,
                extracting := (if extracting st = None then Some scriptType else extracting st)\<rparr>
           else if currentPair = ''}$'' then
             (let st' = st\<lparr>nFormulaBrackets := nFormulaBrackets st - 1\<rparr> in
              if nFormulaBrackets st' = 0 \<and> extracting st' = Some formulaType then
                st'\<lparr>extracting := None,
                    extracted := extracted st' @ [currentExtract st' @ currentPair],
                    currentExtract := []\<rparr>
              else st')
           else if currentPair = ''}%'' then
             (let st' = st\<lparr>nScriptBrackets := nScriptBrackets st - 1\<rparr> in
              if nFormulaBrackets st' = 0 \<and> extracting st' = Some scriptType then
                st'\<lparr>extracting := None,
                    extracted := extracted st' @ [currentExtract st' @ currentPair],
                    currentExtract := []\<rparr>
              else st')
           else st)
     in if extracting st1 \<noteq> None
        then st1\<lparr>currentExtract := currentExtract st1 @ [currentChar]\<rparr>
        else st1)"

fun extractLoop :: "string \<Rightarrow> extract_state \<Rightarrow> extract_state" where
  "extractLoop [] st = st"
| "extractLoop (c # cs) st = extractLoop cs (extractStep c cs st)"

definition extractFormulas :: "string \<Rightarrow> string list" where
  "extractFormulas expression =
     extracted (extractLoop expression
       \<lparr>nFormulaBrackets = 0, nScriptBrackets = 0, extracted = [],
        currentExtract = [], extracting = None\<rparr>)"

section \<open>The \<open>Formula\<close> class\<close>

text \<open>
  A roll as the dice engine returns it, and an entry \<open>{formula, roll}\<close> of a formula's
  roll list.
\<close>

record roll =
  rollTotal :: jsval
  rollFormula :: string

type_synonym roll_entry = "string \<times> roll"

text \<open>A record \<open>{display, handle, value, children}\<close> of the explanation tree.\<close>

datatype explanation_node = ExplanationNode string string jsval "explanation_node list"

text \<open>
  The fields of a \<open>Formula\<close>. \<open>result\<close>, \<open>parsed\<close>, \<open>hasDice\<close> and the lists are
  \<open>undefined\<close> until the formula is computed; \<open>hasDice\<close> then reads as false and the
  objects as empty. \<open>localVars\<close> holds the content of the object at the time the
  computation returns.
\<close>

record Formula =
  raw :: string
  result :: jsval
  localVars :: "jsval obj"
  parsed :: "string option"
  hasDice :: bool
  tokens :: "explanation_node list"
  rolls :: "roll_entry list"
  hidden :: bool
  explanation :: bool

definition newFormula :: "string \<Rightarrow> Formula" where
  "newFormula formula =
     \<lparr>raw = formula, result = Undefined, localVars = [], parsed = None, hasDice = False,
      tokens = [], rolls = [], hidden = False, explanation = True\<rparr>"

text \<open>
  The computation options. A field that holds an object (\<open>localVars\<close>, \<open>textVars\<close>,
  \<open>rolls\<close>) is \<open>None\<close> when the property is absent; \<open>triggerEntityProps\<close> is
  \<open>options.triggerEntity?.props\<close>.
\<close>

record options =
  reference :: "string option"
  defaultValue :: jsval
  localVarsOpt :: "jsval obj option"
  textVarsOpt :: "textvars option"
  rollsOpt :: "roll_entry list option"
  computeExplanation :: bool
  availableKeys :: "string list"
  triggerEntityProps :: "jsval obj option"

datatype log_entry = ConsoleError string | ConsoleWarn string | ConsoleWarnProps "string obj"

text \<open>The functions imported into the evaluator that the model spells out.\<close>

record callbacks =
  cbRef :: "string \<Rightarrow> jsval \<Rightarrow> jsval outcome"
  cbSameRow :: "string \<Rightarrow> jsval \<Rightarrow> jsval outcome"
  cbFirst :: "jsval list \<Rightarrow> jsval \<Rightarrow> jsval"
  cbReplace :: "string \<Rightarrow> string \<Rightarrow> string \<Rightarrow> jsval"
  cbOnUndefinedSymbol :: "string \<Rightarrow> jsval outcome"

text \<open>
  What the engine takes from outside the repository: the math.js evaluator
  (\<open>math.parse(text).evaluate(scope)\<close>, which calls the imported functions and the
  undefined-symbol hook), the walk over the parsed tree that builds the explanation, the
  printing of non-integral numbers, the execution of a script snippet, and the platform's
  dialogs, dice and roll tables. Each is a total function here; the remaining imported
  functions (dynamic-table search, cross-entity lookup and mutation, notification) stay
  inside \<open>mathEvaluate\<close>.
\<close>

record user_input_settings =
  inputName :: string
  inputDisplayName :: jsval
  inputType :: string
  inputChoices :: bool
  inputValues :: "(jsval \<times> jsval) list"
  inputDefaultValue :: jsval

record host =
  mathEvaluate :: "callbacks \<Rightarrow> string \<Rightarrow> jsval obj \<Rightarrow> jsval outcome"
  symbolsInOrder :: "callbacks \<Rightarrow> string \<Rightarrow> jsval obj \<Rightarrow> explanation_node outcome"
  fractionToString :: "rat \<Rightarrow> string"
  runScript :: "string \<Rightarrow> jsval outcome"
  findTemplate :: "string \<Rightarrow> bool"
  templateDialog :: "string \<Rightarrow> jsval obj outcome"
  inputDialog :: "user_input_settings list \<Rightarrow> jsval obj outcome"
  evaluateDice :: "string \<Rightarrow> roll outcome"
  drawTable :: "string \<Rightarrow> roll option \<Rightarrow> string list outcome option"

definition referenceText :: "options \<Rightarrow> string" where
  "referenceText opts = (case reference opts of None \<Rightarrow> ''undefined'' | Some r \<Rightarrow> r)"

definition onUndefinedSymbol :: "jsval \<Rightarrow> string \<Rightarrow> string \<Rightarrow> jsval outcome" where
  "onUndefinedSymbol dflt formula name =
     (if dflt \<noteq> Undefined then Returns dflt
      else ThrowsUncomputable
             (UncomputableError (''Uncomputable token '' @ name) name formula))"

definition importMathFunctions :: "options \<Rightarrow> string \<Rightarrow> jsval obj \<Rightarrow> callbacks" where
  "importMathFunctions opts formula allValues =
     \<lparr>cbRef = ref (defaultValue opts) (availableKeys opts) formula allValues,
      cbSameRow = sameRow (defaultValue opts) (referenceText opts) formula allValues,
      cbFirst = first (defaultValue opts),
      cbReplace = replaceText (defaultValue opts),
      cbOnUndefinedSymbol = onUndefinedSymbol (defaultValue opts) formula\<rparr>"

text \<open>The match of \<open>/^([a-zA-Z0-9_-]+):=(.*)$/\<close>: the variable name and the expression.\<close>

definition isVarNameChar :: "char \<Rightarrow> bool" where
  "isVarNameChar c =
     (let n = (of_char c :: nat) in
      (48 \<le> n \<and> n \<le> 57) \<or> (65 \<le> n \<and> n \<le> 90) \<or> (97 \<le> n \<and> n \<le> 122) \<or>
      c = CHR ''_'' \<or> c = CHR ''-'')"

definition matchAssignment :: "string \<Rightarrow> (string \<times> string) option" where
  "matchAssignment s =
     (let name = takeWhile isVarNameChar s;
          rest = dropWhile isVarNameChar s
      in if name \<noteq> [] \<and> take 2 rest = '':='' \<and> \<not> list_ex isLineTerminator (drop 2 rest)
         then Some (name, drop 2 rest) else None)"

text \<open>
  What a computation hands back besides the formula: the options with the current content
  of the objects they reference (the computation writes into the caller's \<open>localVars\<close> and
  \<open>textVars\<close> objects), and the lines written to the console (debug output is left out).
\<close>

record computed =
  formulaOut :: Formula
  optionsOut :: options
  logOut :: "log_entry list"

definition textVarsScope :: "textvars \<Rightarrow> jsval obj" where
  "textVarsScope textVars = map (\<lambda>(k, v). (k, Str v)) textVars"

text \<open>
  What \<open>computeStatic\<close> has in hand when it enters its \<open>try\<close> block: the name of the
  local variable to set, the content of the \<open>localVars\<close>, \<open>textVars\<close> and \<open>rolls\<close> objects,
  the formula after the assignment prefix and the text literals are taken out, the trimmed
  text to parse, the scope \<open>mathTokens\<close> and the imported functions.
\<close>

record static_context =
  ctxLocalVarName :: "string option"
  ctxLocalVars :: "jsval obj"
  ctxTextVars :: textvars
  ctxRolls :: "roll_entry list"
  ctxFormula :: string
  ctxParsed :: string
  ctxScope :: "jsval obj"
  ctxCallbacks :: callbacks

definition staticContext ::
  "jsval obj \<Rightarrow> options \<Rightarrow> string option \<Rightarrow> Formula \<Rightarrow> static_context" where
  "staticContext props opts formulaArg this =
     (let formula0 = (case formulaArg of None \<Rightarrow> raw this | Some f \<Rightarrow> f);
          localVars0 = (case localVarsOpt opts of None \<Rightarrow> [] | Some l \<Rightarrow> l);
          textVars0 = (case textVarsOpt opts of None \<Rightarrow> [] | Some tv \<Rightarrow> tv);
          rolls0 = (case rollsOpt opts of None \<Rightarrow> [] | Some rs \<Rightarrow> rs);
          allValues = spread props localVars0;
          localVarDecomposed = matchAssignment formula0;
          formula1 = (case localVarDecomposed of None \<Rightarrow> formula0 | Some (n, f) \<Rightarrow> f);
          textVarResult = handleTextVars formula1 textVars0
      in \<lparr>ctxLocalVarName = map_option fst localVarDecomposed,
          ctxLocalVars = localVars0,
          ctxTextVars = snd textVarResult,
          ctxRolls = rolls0,
          ctxFormula = fst textVarResult,
          ctxParsed = trimString (fst textVarResult),
          ctxScope = spread (textVarsScope (snd textVarResult)) allValues,
          ctxCallbacks = importMathFunctions opts (fst textVarResult) allValues\<rparr>)"

text \<open>The \<open>try\<close> block: parse and evaluate, then build the explanation when asked to.\<close>

definition evaluateFormula ::
  "host \<Rightarrow> bool \<Rightarrow> static_context \<Rightarrow> (jsval \<times> explanation_node list) outcome" where
  "evaluateFormula h explain ctx =
     bindOutcome (mathEvaluate h (ctxCallbacks ctx) (ctxParsed ctx) (ctxScope ctx))
       (\<lambda>r. if explain
             then bindOutcome (symbolsInOrder h (ctxCallbacks ctx) (ctxParsed ctx) (ctxScope ctx))
                    (\<lambda>e. Returns (r, [e]))
             else Returns (r, []))"

text \<open>The statements after the \<open>try\<close> block: set the local variable, save every detail.\<close>

definition finishStatic ::
  "options \<Rightarrow> Formula \<Rightarrow> static_context \<Rightarrow> jsval \<Rightarrow> explanation_node list \<Rightarrow> log_entry list
     \<Rightarrow> computed" where
  "finishStatic opts this ctx res expl lg =
     (let localVars1 =
            (case ctxLocalVarName ctx of
               None \<Rightarrow> ctxLocalVars ctx
             | Some localVarName \<Rightarrow> objSet (ctxLocalVars ctx) localVarName res)
      in \<lparr>formulaOut =
            this\<lparr>result := res, localVars := localVars1,
                 parsed := Some (ctxParsed ctx), hasDice := (length (ctxRolls ctx) > 0),
                 tokens := expl, rolls := ctxRolls ctx\<rparr>,
          optionsOut =
            opts\<lparr>localVarsOpt := map_option (\<lambda>l. localVars1) (localVarsOpt opts),
                 textVarsOpt := map_option (\<lambda>tv. ctxTextVars ctx) (textVarsOpt opts)\<rparr>,
          logOut = lg\<rparr>)"

text \<open>\<open>computeStatic(props, options = {}, formula = null)\<close>.\<close>

definition Formula_computeStatic ::
  "host \<Rightarrow> jsval obj \<Rightarrow> options \<Rightarrow> string option \<Rightarrow> Formula \<Rightarrow> computed outcome" where
  "Formula_computeStatic h props opts formulaArg this =
     (let ctx = staticContext props opts formulaArg this
      in case evaluateFormula h (computeExplanation opts) ctx of
           Returns (res, expl) \<Rightarrow> Returns (finishStatic opts this ctx res expl [])
         | ThrowsUncomputable err \<Rightarrow> ThrowsUncomputable err
         | ThrowsError err \<Rightarrow>
             Returns (finishStatic opts this ctx (Str ''ERROR'') [] [ConsoleError err])
         | Pending \<Rightarrow> Pending)"

section \<open>The \<open>ComputablePhrase\<close> class\<close>

lemma bindOutcome_cong [fundef_cong]:
  "r = r' \<Longrightarrow> (\<And>x. r' = Returns x \<Longrightarrow> f x = f' x) \<Longrightarrow> bindOutcome r f = bindOutcome r' f'"
  by (auto simp: bindOutcome_def split: outcome.splits)

lemma extractStep_bound:
  assumes "\<forall>b \<in> set (extracted st). length b \<le> n"
    and "length (currentExtract st) + length (c # cs) \<le> n"
  shows "(\<forall>b \<in> set (extracted (extractStep c cs st)). length b \<le> n) \<and>
         length (currentExtract (extractStep c cs st)) + length cs \<le> n"
  using assms by (cases cs) (auto simp: extractStep_def Let_def)

lemma extractLoop_bound:
  "\<forall>b \<in> set (extracted st). length b \<le> n \<Longrightarrow> length (currentExtract st) + length cs \<le> n \<Longrightarrow>
   \<forall>b \<in> set (extracted (extractLoop cs st)). length b \<le> n"
proof (induction cs arbitrary: st)
  case Nil
  then show ?case by simp
next
  case (Cons c cs)
  have "(\<forall>b \<in> set (extracted (extractStep c cs st)). length b \<le> n) \<and>
         length (currentExtract (extractStep c cs st)) + length cs \<le> n"
    using extractStep_bound[OF Cons.prems] .
  then show ?case using Cons.IH[of "extractStep c cs st"] by simp
qed

lemma extractFormulas_length: "b \<in> set (extractFormulas e) \<Longrightarrow> length b \<le> length e"
  using extractLoop_bound[of "\<lparr>nFormulaBrackets = 0, nScriptBrackets = 0, extracted = [],
        currentExtract = [], extracting = None\<rparr>" "length e" e]
  by (simp add: extractFormulas_def)

text \<open>
  The closure variables of \<open>compute\<close> and \<open>computeStatic\<close> that \<open>processFormulas\<close> works on:
  \<open>localVars\<close>, \<open>computedFormulas\<close> and \<open>nComputed\<close>; the options with the current content of
  the objects they reference; the console. \<open>calls\<close> is a history variable, not a variable of
  the program: it records every call of the formula's method with the placeholder id at
  hand, the kind of block computed, the content of the \<open>localVars\<close> object passed, and
  the formula as it came back.
\<close>

record formula_call =
  callId :: string
  callKind :: block_type
  callLocalVars :: "jsval obj"
  callFormula :: Formula

record phrase_state =
  localVarsP :: "jsval obj"
  computedFormulas :: "Formula obj"
  nComputed :: nat
  currentOptions :: options
  console :: "log_entry list"
  calls :: "formula_call list"

text \<open>
  \<open>compute\<close> and \<open>computeStatic\<close> hold the same \<open>processFormulas\<close>, one calling
  \<open>formula.compute\<close> and the other \<open>formula.computeStatic\<close>; the method is a parameter
  here.
\<close>

type_synonym formula_method = "jsval obj \<Rightarrow> options \<Rightarrow> Formula \<Rightarrow> computed outcome"

text \<open>
  The call \<open>formula.compute(props, {localVars, ...options})\<close>: the options' own
  \<open>localVars\<close> wins over the phrase's when present. The method may write into the object
  it is passed; the phrase's variable or the options see the new content.
\<close>

definition callFormulaMethod ::
  "formula_method \<Rightarrow> jsval obj \<Rightarrow> string \<Rightarrow> block_type \<Rightarrow> Formula \<Rightarrow> phrase_state
     \<Rightarrow> (Formula \<times> phrase_state) outcome" where
  "callFormulaMethod fcompute props computedId kind formula st =
     (let own = (localVarsOpt (currentOptions st) = None);
          passed = (case localVarsOpt (currentOptions st) of
                      None \<Rightarrow> localVarsP st | Some l \<Rightarrow> l);
          callOptions = (currentOptions st)\<lparr>localVarsOpt := Some passed\<rparr>
      in bindOutcome (fcompute props callOptions formula)
           (\<lambda>out.
              (let after = (case localVarsOpt (optionsOut out) of
                              None \<Rightarrow> passed | Some l \<Rightarrow> l)
               in Returns
                    (formulaOut out,
                     st\<lparr>localVarsP := (if own then after else localVarsP st),
                        currentOptions :=
                          (optionsOut out)\<lparr>localVarsOpt := (if own then None else Some after)\<rparr>,
                        console := console st @ logOut out,
                        calls := calls st @
                          [\<lparr>callId = computedId, callKind = kind, callLocalVars = passed,
                            callFormula = formulaOut out\<rparr>]\<rparr>))))"

text \<open>\<open>textFormula.substring(2).slice(0, -2)\<close>.\<close>

definition innerText :: "string \<Rightarrow> string" where
  "innerText textFormula = take (length (drop 2 textFormula) - 2) (drop 2 textFormula)"

definition isNumber :: "jsval \<Rightarrow> bool" where
  "isNumber v = (case v of Num _ \<Rightarrow> True | _ \<Rightarrow> False)"

text \<open>The result of a script turned into a literal the formula can hold.\<close>

definition scriptLiteral :: "(rat \<Rightarrow> string) \<Rightarrow> jsval \<Rightarrow> jsval" where
  "scriptLiteral fts r =
     (let r1 = (if r = Undefined then Str ''undefined'' else r);
          r2 = (if r1 = Null then Str ''null'' else r1);
          r3 = (if r2 = Obj then Str ''object'' else r2)
      in if isNumber r3 \<or> isBoolean r3 then r3
         else Str ([quote] @ ToString fts r3 @ [quote]))"

text \<open>The script's \<open>try\<close> and \<open>catch\<close>: a usable default value replaces any failure.\<close>

definition evaluateScript ::
  "host \<Rightarrow> options \<Rightarrow> string \<Rightarrow> (jsval \<times> log_entry list) outcome" where
  "evaluateScript h opts body =
     (let usable = \<not> nullish (defaultValue opts) in
      case runScript h body of
        Returns r \<Rightarrow> Returns (r, [])
      | ThrowsUncomputable (UncomputableError m t f) \<Rightarrow>
          (if usable then Returns (defaultValue opts, [ConsoleError m])
           else ThrowsUncomputable (UncomputableError m t f))
      | ThrowsError e \<Rightarrow>
          (if usable then Returns (defaultValue opts, [ConsoleError e]) else ThrowsError e)
      | Pending \<Rightarrow> Pending)"

definition maxLength :: "string list \<Rightarrow> nat" where
  "maxLength bs = foldr (\<lambda>b m. max (length b) m) bs 0"

lemma maxLength_Cons [simp]: "maxLength (b # bs) = max (length b) (maxLength bs)"
  by (simp add: maxLength_def)

lemma maxLength_bound: "(\<forall>b \<in> set bs. length b \<le> n) \<Longrightarrow> maxLength bs \<le> n"
  by (induction bs) (auto simp: maxLength_def)

lemma maxLength_extract: "maxLength (extractFormulas e) \<le> length e"
  using maxLength_bound extractFormulas_length by blast

lemma innerText_length: "startsWith t p \<Longrightarrow> length p = 2 \<Longrightarrow> length (innerText t) < length t"
  by (cases t) (auto simp: innerText_def startsWith_def)

lemma inner_blocks_shorter:
  assumes "startsWith t p" and "length p = 2"
  shows "maxLength (extractFormulas (innerText t)) < max (length t) m"
  using maxLength_extract[of "innerText t"] innerText_length[OF assms] by simp

text \<open>
  \<open>processFormulas\<close>: \<open>processBlocks\<close> is its \<open>for\<close> loop over the extracted blocks, and the
  recursive call on the inner text of a block runs the extraction and the loop again.
\<close>

function processBlocks ::
  "formula_method \<Rightarrow> host \<Rightarrow> jsval obj \<Rightarrow> string list \<Rightarrow> string \<times> string \<Rightarrow> phrase_state
     \<Rightarrow> ((string \<times> string) \<times> phrase_state) outcome" where
  "processBlocks fcompute h props [] be st = Returns (be, st)"
| "processBlocks fcompute h props (textFormula # rest) (buildPhrase, expression) st =
     (let computedId = ''form'' @ natToString (nComputed st) in
      if startsWith textFormula ''${'' \<and> endsWith textFormula ''}$'' then
        bindOutcome
          (processBlocks fcompute h props (extractFormulas (innerText textFormula))
             (innerText textFormula, innerText textFormula) st)
          (\<lambda>(processedFormula, st1).
             bindOutcome
               (callFormulaMethod fcompute props computedId formulaType
                  (newFormula (snd processedFormula)) st1)
               (\<lambda>(formula, st2).
                  processBlocks fcompute h props rest
                    (replaceFirst buildPhrase textFormula computedId,
                     replaceFirst expression textFormula
                       (ToString (fractionToString h) (result formula)))
                    (st2\<lparr>computedFormulas := objSet (computedFormulas st2) computedId formula,
                         localVarsP := spread (localVarsP st2) (localVars formula),
                         nComputed := nComputed st2 + 1\<rparr>)))
      else if startsWith textFormula ''%{'' \<and> endsWith textFormula ''}%'' then
        bindOutcome
          (processBlocks fcompute h props (extractFormulas (innerText textFormula))
             (innerText textFormula, innerText textFormula) st)
          (\<lambda>(processedFormula, st1).
             bindOutcome (evaluateScript h (currentOptions st1) (snd processedFormula))
               (\<lambda>(scriptResult, lg).
                  (let res = scriptLiteral (fractionToString h) scriptResult in
                   bindOutcome
                     (callFormulaMethod fcompute props computedId scriptType
                        (newFormula (ToString (fractionToString h) res))
                        (st1\<lparr>console := console st1 @ lg\<rparr>))
                     (\<lambda>(formula, st2).
                        processBlocks fcompute h props rest
                          (replaceFirst buildPhrase textFormula computedId,
                           replaceFirst expression textFormula
                             (ToString (fractionToString h) res))
                          (st2\<lparr>computedFormulas :=
                                 objSet (computedFormulas st2) computedId formula,
                               nComputed := nComputed st2 + 1\<rparr>)))))
      else processBlocks fcompute h props rest (buildPhrase, expression)
             (st\<lparr>nComputed := nComputed st + 1\<rparr>))"
  by pat_completeness auto
termination
  by (relation "inv_image (less_than <*lex*> less_than)
         (\<lambda>(fcompute, h, props, bs, be, st). (maxLength bs, length bs))")
     (auto simp: inner_blocks_shorter[where p = "''${''"]
        inner_blocks_shorter[where p = "''%{''"])

definition processFormulas ::
  "formula_method \<Rightarrow> host \<Rightarrow> jsval obj \<Rightarrow> string \<times> string \<Rightarrow> phrase_state
     \<Rightarrow> ((string \<times> string) \<times> phrase_state) outcome" where
  "processFormulas fcompute h props be st =
     processBlocks fcompute h props (extractFormulas (snd be)) be st"

text \<open>A computed phrase: the build phrase and the computed formulas, with the history.\<close>

record ComputablePhrase =
  rawPhrase :: string
  buildPhrase :: string
  phraseFormulas :: "Formula obj"
  phraseOptions :: options
  phraseConsole :: "log_entry list"
  phraseCalls :: "formula_call list"

definition computePhraseWith ::
  "formula_method \<Rightarrow> host \<Rightarrow> jsval obj \<Rightarrow> options \<Rightarrow> string \<Rightarrow> ComputablePhrase outcome" where
  "computePhraseWith fcompute h props opts phrase =
     bindOutcome
       (processFormulas fcompute h props (phrase, phrase)
          \<lparr>localVarsP = [], computedFormulas = [], nComputed = 0, currentOptions = opts,
           console = [], calls = []\<rparr>)
       (\<lambda>(processedFormula, st).
          Returns
            \<lparr>rawPhrase = phrase, buildPhrase = fst processedFormula,
             phraseFormulas = computedFormulas st, phraseOptions = currentOptions st,
             phraseConsole = console st, phraseCalls = calls st\<rparr>)"

definition staticMethod :: "host \<Rightarrow> formula_method" where
  "staticMethod h props opts formula = Formula_computeStatic h props opts None formula"

text \<open>\<open>ComputablePhrase.computeStatic\<close> and \<open>computeMessageStatic\<close>.\<close>

definition ComputablePhrase_computeStatic ::
  "host \<Rightarrow> jsval obj \<Rightarrow> options \<Rightarrow> string \<Rightarrow> ComputablePhrase outcome" where
  "ComputablePhrase_computeStatic h props opts phrase =
     computePhraseWith (staticMethod h) h props opts phrase"

lemma splitAtFirst_parts: "splitAtFirst pat s = Some (b, a) \<Longrightarrow> s = b @ pat @ a"
proof (induction pat s arbitrary: b a rule: splitAtFirst.induct)
  case (1 pat)
  then show ?case by (auto split: if_splits)
next
  case (2 pat c cs)
  show ?case
  proof (cases "take (length pat) (c # cs) = pat")
    case True
    with 2 have "b = []" and "a = drop (length pat) (c # cs)" by auto
    with True show ?thesis by (metis append_Nil append_take_drop_id)
  next
    case False
    with 2 obtain b' where "splitAtFirst pat cs = Some (b', a)" and "b = c # b'" by auto
    with 2 False show ?thesis by auto
  qed
qed

text \<open>
  \<open>String.prototype.replaceAll\<close> with a non-empty string pattern: every occurrence, left
  to right, each replacement expanded against the original string.
\<close>

function replaceAllFrom :: "string \<Rightarrow> string \<Rightarrow> string \<Rightarrow> string \<Rightarrow> string" where
  "replaceAllFrom seen s pat rep =
     (if pat = [] then s
      else case splitAtFirst pat s of
             None \<Rightarrow> s
           | Some (b, a) \<Rightarrow>
               b @ getSubstitution pat (seen @ b) a rep
                 @ replaceAllFrom (seen @ b @ pat) a pat rep)"
  by pat_completeness auto
termination
proof (relation "measure (\<lambda>(seen, s, pat, rep). length s)", goal_cases)
  case 1
  then show ?case by simp
next
  case (2 seen s pat rep x2 b a)
  then have "s = b @ pat @ a" using splitAtFirst_parts by simp
  with 2 show ?case by simp
qed

declare replaceAllFrom.simps [simp del]

definition replaceAll :: "string \<Rightarrow> string \<Rightarrow> string \<Rightarrow> string" where
  "replaceAll s pat rep = replaceAllFrom [] s pat rep"

text \<open>The getter \<open>result\<close>: each placeholder replaced by its formula's result, or nothing.\<close>

definition phraseResult :: "(rat \<Rightarrow> string) \<Rightarrow> ComputablePhrase \<Rightarrow> string" where
  "phraseResult fts p =
     foldl (\<lambda>phrase (key, formula).
              replaceAll phrase key (ToString fts (coalesce (result formula) (Str []))))
       (buildPhrase p) (phraseFormulas p)"

section \<open>Prompts, rolls and \<open>Formula.compute\<close>\<close>

definition dquote :: char where
  "dquote = CHR 0x22"

text \<open>
  The matches of \<open>/\?#{.*?}/g\<close>, \<open>/\?{.*?}/g\<close> and \<open>/:(.*?):/g\<close>: an opener, the fewest
  characters of one line, a closing character.
\<close>

fun untilChar :: "char \<Rightarrow> string \<Rightarrow> nat option" where
  "untilChar t [] = None"
| "untilChar t (c # cs) =
     (if c = t then Some 0
      else if isLineTerminator c then None
      else map_option Suc (untilChar t cs))"

function delimitedTokens :: "string \<Rightarrow> char \<Rightarrow> string \<Rightarrow> string list" where
  "delimitedTokens opener closer [] = []"
| "delimitedTokens opener closer (c # cs) =
     (if startsWith (c # cs) opener then
        (case untilChar closer (drop (length opener) (c # cs)) of
           Some n \<Rightarrow>
             take (length opener + n + 1) (c # cs)
               # delimitedTokens opener closer (drop (length opener + n + 1) (c # cs))
         | None \<Rightarrow> delimitedTokens opener closer cs)
      else delimitedTokens opener closer cs)"
  by pat_completeness auto
termination
  by (relation "measure (\<lambda>(opener, closer, s). length s)") auto

text \<open>\<open>String.prototype.split\<close> with a one-character separator.\<close>

fun splitOn :: "char \<Rightarrow> string \<Rightarrow> string list" where
  "splitOn d [] = [[]]"
| "splitOn d (c # cs) =
     (if c = d then [] # splitOn d cs
      else (case splitOn d cs of
              x # xs \<Rightarrow> (c # x) # xs
            | [] \<Rightarrow> [[c]]))"

text \<open>
  \<open>userInputDisplayRegex\<close> is \<open>/^(?<name>.+?)(:(?<displayName>.+?))?(\[(?<type>.+?)])?$/\<close>
  and \<open>userInputValuesRegex\<close> is \<open>/^(?<key>".+?"|.+?)(,(?<value>".+?"|.+?))?$/\<close>. The
  searches below try the candidates in the order the backtracking matcher does: the
  shortest name first, an optional group before its absence; the result is the groups of
  the first full match, or \<open>None\<close> where \<open>exec\<close> returns \<open>null\<close>.
\<close>

fun firstSome :: "('a \<Rightarrow> 'b option) \<Rightarrow> 'a list \<Rightarrow> 'b option" where
  "firstSome f [] = None"
| "firstSome f (x # xs) = (case f x of Some y \<Rightarrow> Some y | None \<Rightarrow> firstSome f xs)"

definition noLineTerminator :: "string \<Rightarrow> bool" where
  "noLineTerminator s = (\<not> list_ex isLineTerminator s)"

definition bracketTail :: "string \<Rightarrow> string option option" where
  "bracketTail r =
     (if 3 \<le> length r \<and> hd r = CHR ''['' \<and> last r = CHR '']'' \<and> noLineTerminator (butlast (tl r))
      then Some (Some (butlast (tl r)))
      else if r = [] then Some None else None)"

definition displayTail :: "string \<Rightarrow> (string option \<times> string option) option" where
  "displayTail r =
     (case (if take 1 r = '':''
            then firstSome
                   (\<lambda>j. if noLineTerminator (take j (tl r))
                        then map_option (\<lambda>t. (Some (take j (tl r)), t)) (bracketTail (drop j (tl r)))
                        else None)
                   [1..<length r]
            else None) of
        Some x \<Rightarrow> Some x
      | None \<Rightarrow> map_option (\<lambda>t. (None, t)) (bracketTail r))"

definition userInputDisplayRegex ::
  "string \<Rightarrow> (string \<times> string option \<times> string option) option" where
  "userInputDisplayRegex s =
     firstSome
       (\<lambda>k. if noLineTerminator (take k s)
            then map_option (\<lambda>(d, t). (take k s, d, t)) (displayTail (drop k s))
            else None)
       [1..<Suc (length s)]"

definition valueTail :: "string \<Rightarrow> string option option" where
  "valueTail r =
     (if take 1 r = '','' \<and> tl r \<noteq> [] \<and> noLineTerminator (tl r) then Some (Some (tl r))
      else if r = [] then Some None else None)"

definition userInputValuesRegex :: "string \<Rightarrow> (string \<times> string option) option" where
  "userInputValuesRegex s =
     (case (if take 1 s = [dquote]
            then firstSome
                   (\<lambda>j. if s ! (j + 1) = dquote \<and> noLineTerminator (take (j + 2) s)
                        then map_option (\<lambda>v. (take (j + 2) s, v)) (valueTail (drop (j + 2) s))
                        else None)
                   [1..<length s - 1]
            else None) of
        Some x \<Rightarrow> Some x
      | None \<Rightarrow>
          firstSome
            (\<lambda>k. if noLineTerminator (take k s)
                 then map_option (\<lambda>v. (take k s, v)) (valueTail (drop k s))
                 else None)
            [1..<Suc (length s)])"


text \<open>
  The matches of \<open>/\[(:?\[[^\[\]]+\]|.)+?\]/g\<close>. \<open>bracketGroup\<close> is the first alternative
  of the group (an optional colon, then a bracket pair around characters other than
  brackets); \<open>rollEnd\<close> runs the lazy repetition after the opening bracket: once an
  iteration is done it stops at a closing bracket, else it tries the first alternative,
  then any character of the line.
\<close>

definition bracketGroup :: "string \<Rightarrow> nat option" where
  "bracketGroup s =
     (let colon = (if take 1 s = '':'' then 1 else 0);
          s1 = drop colon s;
          run = takeWhile (\<lambda>c. c \<noteq> CHR ''['' \<and> c \<noteq> CHR '']'') (drop 1 s1)
      in if take 1 s1 = ''['' \<and> run \<noteq> [] \<and> take 1 (drop (length run) (drop 1 s1)) = '']''
         then Some (colon + length run + 2) else None)"

lemma bracketGroup_pos: "bracketGroup s = Some k \<Longrightarrow> 0 < k"
  by (auto simp: bracketGroup_def Let_def split: if_splits)

function rollEnd :: "bool \<Rightarrow> string \<Rightarrow> nat option" where
  "rollEnd started s =
     (if started \<and> take 1 s = '']'' then Some 1
      else case (case bracketGroup s of
                   Some k \<Rightarrow> map_option (\<lambda>m. k + m) (rollEnd True (drop k s))
                 | None \<Rightarrow> None) of
             Some n \<Rightarrow> Some n
           | None \<Rightarrow>
               (case s of
                  [] \<Rightarrow> None
                | c # cs \<Rightarrow>
                    if isLineTerminator c then None
                    else map_option Suc (rollEnd True cs)))"
  by pat_completeness auto
termination
proof (relation "measure (\<lambda>(started, s). length s)", goal_cases)
  case 1
  then show ?case by simp
next
  case (2 started s k)
  then have "0 < k" using bracketGroup_pos by simp
  moreover have "s \<noteq> []" using 2 by (auto simp: bracketGroup_def Let_def split: if_splits)
  ultimately show ?case by simp
next
  case 3
  then show ?case by simp
qed

declare rollEnd.simps [simp del]

function rollTokens :: "string \<Rightarrow> string list" where
  "rollTokens [] = []"
| "rollTokens (c # cs) =
     (if c = CHR ''['' then
        (case rollEnd False cs of
           Some n \<Rightarrow> (c # take n cs) # rollTokens (drop n cs)
         | None \<Rightarrow> rollTokens cs)
      else rollTokens cs)"
  by pat_completeness auto
termination
  by (relation "measure length") auto


text \<open>The state of \<open>Formula.compute\<close>: its local variables, the options and \<open>this\<close>.\<close>

definition colonTokens :: "string \<Rightarrow> string list" where
  "colonTokens s = delimitedTokens '':'' (CHR '':'') s"

record compute_state =
  cFormula :: string
  cLocalVars :: "jsval obj"
  cAliased :: bool
  cOptions :: options
  cThis :: Formula
  cRolls :: "roll_entry list"
  cLog :: "log_entry list"

type_synonym phrase_method = "jsval obj \<Rightarrow> options \<Rightarrow> string \<Rightarrow> ComputablePhrase outcome"

definition localContent :: "compute_state \<Rightarrow> jsval obj" where
  "localContent st =
     (if cAliased st
      then (case localVarsOpt (cOptions st) of None \<Rightarrow> cLocalVars st | Some l \<Rightarrow> l)
      else cLocalVars st)"

definition mergeUserData :: "compute_state \<Rightarrow> jsval obj \<Rightarrow> compute_state" where
  "mergeUserData st userData =
     st\<lparr>cLocalVars := spread (localContent st) userData, cAliased := False\<rparr>"

text \<open>The two \<open>if\<close> statements on the leading \<open>#\<close> and \<open>!\<close>.\<close>

definition stripSigils :: "compute_state \<Rightarrow> compute_state" where
  "stripSigils st =
     (let st1 = (if startsWith (cFormula st) ''#''
                 then st\<lparr>cThis := (cThis st)\<lparr>hidden := True\<rparr>, cFormula := drop 1 (cFormula st)\<rparr>
                 else st)
      in if startsWith (cFormula st1) ''!''
         then st1\<lparr>cThis := (cThis st1)\<lparr>explanation := False\<rparr>,
                  cFormula := drop 1 (cFormula st1)\<rparr>
         else st1)"

fun templateLoop :: "host \<Rightarrow> string list \<Rightarrow> compute_state \<Rightarrow> compute_state outcome" where
  "templateLoop h [] st = Returns st"
| "templateLoop h (tok # toks) st =
     (let userInputTemplateName = take (length (drop 3 tok) - 1) (drop 3 tok) in
      bindOutcome
        (if \<not> findTemplate h userInputTemplateName
         then Returns
                (st\<lparr>cLog := cLog st @
                      [ConsoleWarn (''User Input Template '' @ userInputTemplateName
                                     @ '' was not found.'')]\<rparr>)
         else bindOutcome (templateDialog h userInputTemplateName)
                (\<lambda>userData. Returns (mergeUserData st userData)))
        (\<lambda>st1. templateLoop h toks
                 (st1\<lparr>cFormula := replaceFirst (cFormula st1) tok
                                      ([dquote] @ userInputTemplateName @ [dquote]),
                      cThis := (cThis st1)\<lparr>hidden := True\<rparr>\<rparr>)))"

definition nestedResult ::
  "formula_method \<Rightarrow> jsval obj \<Rightarrow> string \<Rightarrow> compute_state \<Rightarrow> (jsval \<times> compute_state) outcome" where
  "nestedResult recF props txt st =
     bindOutcome (recF props (cOptions st) (newFormula txt))
       (\<lambda>out. Returns (result (formulaOut out),
                       st\<lparr>cOptions := optionsOut out, cLog := cLog st @ logOut out\<rparr>))"

fun choicesLoop ::
  "formula_method \<Rightarrow> jsval obj \<Rightarrow> string list \<Rightarrow> (jsval \<times> jsval) list \<Rightarrow> compute_state
     \<Rightarrow> ((jsval \<times> jsval) list \<times> compute_state) outcome" where
  "choicesLoop recF props [] vals st = Returns (vals, st)"
| "choicesLoop recF props (choice # rest) vals st =
     (case userInputValuesRegex choice of
        None \<Rightarrow> ThrowsError ''TypeError''
      | Some (key, valueGroup) \<Rightarrow>
          bindOutcome (nestedResult recF props key st)
            (\<lambda>(name, st1).
               bindOutcome
                 (case valueGroup of
                    None \<Rightarrow> Returns (name, st1)
                  | Some v \<Rightarrow> nestedResult recF props v st1)
                 (\<lambda>(displayValue, st2).
                    choicesLoop recF props rest (vals @ [(name, displayValue)]) st2)))"

fun userInputLoop ::
  "formula_method \<Rightarrow> jsval obj \<Rightarrow> string list \<Rightarrow> user_input_settings list \<Rightarrow> compute_state
     \<Rightarrow> (user_input_settings list \<times> compute_state) outcome" where
  "userInputLoop recF props [] allUserVars st = Returns (allUserVars, st)"
| "userInputLoop recF props (tok # toks) allUserVars st =
     (let userInputData = take (length (drop 2 tok) - 1) (drop 2 tok);
          parts = splitOn (CHR ''|'') userInputData
      in case userInputDisplayRegex (hd parts) of
           None \<Rightarrow> ThrowsError ''TypeError''
         | Some (name, displayGroup, typeGroup) \<Rightarrow>
             bindOutcome
               (case displayGroup of
                  None \<Rightarrow> Returns (Str name, st)
                | Some d \<Rightarrow> nestedResult recF props d st)
               (\<lambda>(displayName, st1).
                  bindOutcome (choicesLoop recF props (tl parts) [] st1)
                    (\<lambda>(vals, st2).
                       (let settings =
                              \<lparr>inputName = name, inputDisplayName = displayName,
                               inputType = (case typeGroup of None \<Rightarrow> ''text'' | Some ty \<Rightarrow> ty),
                               inputChoices = (length vals > 1),
                               inputValues = (if length vals > 1 then vals else []),
                               inputDefaultValue =
                                 (if length vals > 1 then Undefined
                                  else (case vals of [] \<Rightarrow> Undefined | v # _ \<Rightarrow> fst v))\<rparr>
                        in userInputLoop recF props toks (allUserVars @ [settings])
                             (st2\<lparr>cFormula := replaceFirst (cFormula st2) tok name\<rparr>)))))"

definition userInputs ::
  "formula_method \<Rightarrow> host \<Rightarrow> jsval obj \<Rightarrow> compute_state \<Rightarrow> compute_state outcome" where
  "userInputs recF h props st =
     bindOutcome
       (userInputLoop recF props (delimitedTokens ''?{'' (CHR ''}'') (cFormula st)) [] st)
       (\<lambda>(allUserVars, st1).
          if length allUserVars > 0
          then bindOutcome (inputDialog h allUserVars)
                 (\<lambda>userData. Returns (mergeUserData st1 userData))
          else Returns st1)"

text \<open>
  \<open>evaluateRoll\<close> returns what \<open>rollTable.draw\<close> resolves to, an object with the
  \<open>results\<close> drawn, or an object holding only the evaluated \<open>roll\<close>.
\<close>

datatype roll_result = TableDraw "string list" | DiceRoll roll

fun colonParams :: "string list \<Rightarrow> string \<Rightarrow> string" where
  "colonParams [] txt = txt"
| "colonParams (tok # toks) txt =
     colonParams toks
       (replaceFirstWith txt tok (''${'' @ take (length tok - 2) (drop 1 tok) @ ''}$''))"

definition computeRollPhrase ::
  "phrase_method \<Rightarrow> host \<Rightarrow> jsval obj \<Rightarrow> string \<Rightarrow> compute_state \<Rightarrow> (string \<times> compute_state) outcome" where
  "computeRollPhrase recP h props txt st =
     bindOutcome (recP props (cOptions st) (colonParams (colonTokens txt) txt))
       (\<lambda>finalText.
          Returns (phraseResult (fractionToString h) finalText,
                   st\<lparr>cOptions := phraseOptions finalText,
                      cLog := cLog st @ phraseConsole finalText\<rparr>))"

definition evaluateRoll ::
  "phrase_method \<Rightarrow> host \<Rightarrow> jsval obj \<Rightarrow> string \<Rightarrow> compute_state
     \<Rightarrow> (roll_result \<times> compute_state) outcome" where
  "evaluateRoll recP h props rollText0 st =
     (let isRollTable = startsWith rollText0 ''#'';
          separatedRoll = splitOn (CHR ''|'') (drop 1 rollText0);
          rollText = (if isRollTable then hd separatedRoll else rollText0);
          selectValue = (if isRollTable \<and> length separatedRoll > 1
                         then Some (separatedRoll ! 1) else None)
      in bindOutcome (computeRollPhrase recP h props rollText st)
           (\<lambda>(finalRollText, st1).
              if isRollTable then
                (case selectValue of
                   Some sv \<Rightarrow>
                     (if sv \<noteq> [] then
                        bindOutcome (computeRollPhrase recP h props sv st1)
                          (\<lambda>(finalSelectValue, st2).
                             bindOutcome (evaluateDice h finalSelectValue)
                               (\<lambda>r. case drawTable h finalRollText (Some r) of
                                      None \<Rightarrow> ThrowsError ''TypeError''
                                    | Some d \<Rightarrow>
                                        bindOutcome d (\<lambda>res. Returns (TableDraw res, st2))))
                      else (case drawTable h finalRollText None of
                              None \<Rightarrow> ThrowsError ''TypeError''
                            | Some d \<Rightarrow> bindOutcome d (\<lambda>res. Returns (TableDraw res, st1))))
                 | None \<Rightarrow>
                     (case drawTable h finalRollText None of
                        None \<Rightarrow> ThrowsError ''TypeError''
                      | Some d \<Rightarrow> bindOutcome d (\<lambda>res. Returns (TableDraw res, st1))))
              else bindOutcome (evaluateDice h finalRollText)
                     (\<lambda>r. Returns (DiceRoll r, st1))))"

fun joinWith :: "string \<Rightarrow> string list \<Rightarrow> string" where
  "joinWith sep [] = []"
| "joinWith sep [x] = x"
| "joinWith sep (x # y # zs) = x @ sep @ joinWith sep (y # zs)"

definition arrow :: string where
  "arrow = [CHR 0x20, CHR 0xE2, CHR 0x86, CHR 0x92, CHR 0x20, CHR ''['']"

text \<open>\<open>rollString.substr(1).slice(0, -1)\<close>: the roll block without its outer brackets.\<close>

definition rollContent :: "string \<Rightarrow> string" where
  "rollContent rollString = take (length (drop 1 rollString) - 1) (drop 1 rollString)"

fun rollLoop ::
  "phrase_method \<Rightarrow> host \<Rightarrow> jsval obj \<Rightarrow> string list \<Rightarrow> compute_state \<Rightarrow> compute_state outcome" where
  "rollLoop recP h props [] st = Returns st"
| "rollLoop recP h props (rollString # rest) st =
     bindOutcome
       (evaluateRoll recP h props (rollContent rollString) st)
       (\<lambda>(rollResult, st1).
          case rollResult of
            TableDraw results \<Rightarrow>
              rollLoop recP h props rest
                (st1\<lparr>cFormula := replaceFirstWith (cFormula st1) rollString
                                     ([quote] @ joinWith '', '' results @ [quote])\<rparr>)
          | DiceRoll r \<Rightarrow>
              (let rollFormulaText =
                     (if rollString = ''['' @ rollFormula r @ '']'' then rollString
                      else rollString @ arrow @ rollFormula r @ '']'')
               in rollLoop recP h props rest
                    (st1\<lparr>cFormula := replaceFirst (cFormula st1) rollString
                                         (ToString (fractionToString h) (rollTotal r)),
                         cRolls := cRolls st1 @ [(rollFormulaText, r)]\<rparr>)))"

text \<open>
  A roll block is a dice block when its content does not begin with \<open>#\<close>, the mark of
  a roll-table draw.
\<close>

definition isDiceBlock :: "string \<Rightarrow> bool" where
  "isDiceBlock rollString = (\<not> startsWith (rollContent rollString) ''#'')"

definition isTableDraw :: "roll_result \<Rightarrow> bool" where
  "isTableDraw rr = (case rr of TableDraw _ \<Rightarrow> True | DiceRoll _ \<Rightarrow> False)"

text \<open>
  The state after the first statements of \<open>compute\<close>: the formula is the raw text with
  its text literals isolated, \<open>localVars\<close> is the object of the options or a new one.
\<close>

definition initialState :: "options \<Rightarrow> Formula \<Rightarrow> compute_state" where
  "initialState opts this =
     \<lparr>cFormula = fst (handleTextVars (raw this) []), cLocalVars = [], cAliased = True,
      cOptions = opts, cThis = this, cRolls = [], cLog = []\<rparr>"

text \<open>
  \<open>Formula.compute\<close> up to the handling of rolls: the text literals are isolated, the
  sigils stripped, the prompt templates and the inline prompts resolved. The result is the
  text-variable map and the state in which the roll blocks are looked for.
\<close>

definition beforeRolls ::
  "formula_method \<Rightarrow> host \<Rightarrow> jsval obj \<Rightarrow> options \<Rightarrow> Formula
     \<Rightarrow> (textvars \<times> compute_state) outcome" where
  "beforeRolls recF h props opts this =
     (let st0 = stripSigils (initialState opts this)
      in bindOutcome (templateLoop h (delimitedTokens ''?#{'' (CHR ''}'') (cFormula st0)) st0)
           (\<lambda>st1. bindOutcome (userInputs recF h props st1)
              (\<lambda>st2. Returns (snd (handleTextVars (raw this) []), st2))))"

definition preprocess ::
  "formula_method \<Rightarrow> phrase_method \<Rightarrow> host \<Rightarrow> jsval obj \<Rightarrow> options \<Rightarrow> Formula
     \<Rightarrow> (textvars \<times> compute_state) outcome" where
  "preprocess recF recP h props opts this =
     bindOutcome (beforeRolls recF h props opts this)
       (\<lambda>(textVars, st2).
          bindOutcome (rollLoop recP h props (rollTokens (cFormula st2)) st2)
            (\<lambda>st3. Returns (textVars, st3)))"

text \<open>
  \<open>Formula.compute(props, options = {})\<close>. The formulas and phrases it computes on the
  way (display names and choices of prompts, the text of rolls) are computed by
  \<open>recF\<close> and \<open>recP\<close>, which stand for \<open>Formula.compute\<close> and
  \<open>ComputablePhrase.compute\<close> themselves.
\<close>

definition Formula_compute ::
  "formula_method \<Rightarrow> phrase_method \<Rightarrow> host \<Rightarrow> jsval obj \<Rightarrow> options \<Rightarrow> Formula
     \<Rightarrow> computed outcome" where
  "Formula_compute recF recP h props opts this =
     bindOutcome (preprocess recF recP h props opts this)
       (\<lambda>(textVars, st).
          bindOutcome
            (Formula_computeStatic h
               (spread props (case triggerEntityProps (cOptions st) of None \<Rightarrow> [] | Some p \<Rightarrow> p))
               ((cOptions st)\<lparr>localVarsOpt := Some (localContent st),
                             textVarsOpt := Some textVars,
                             rollsOpt := Some (cRolls st),
                             computeExplanation :=
                               (computeExplanation (cOptions st) \<and> explanation (cThis st))\<rparr>)
               (Some (cFormula st)) (cThis st))
            (\<lambda>out.
               Returns
                 \<lparr>formulaOut = formulaOut out,
                  optionsOut =
                    (cOptions st)\<lparr>localVarsOpt :=
                      (if cAliased st
                       then map_option (\<lambda>l. localVars (formulaOut out)) (localVarsOpt (cOptions st))
                       else localVarsOpt (cOptions st))\<rparr>,
                  logOut = cLog st @ logOut out\<rparr>))"

text \<open>
  The recursion of \<open>compute\<close> through the formulas and phrases it computes on the way is
  not bounded by the text, since their results are put back into it. \<open>computeLevel n\<close>
  allows \<open>n\<close> levels of such calls and is \<open>Pending\<close> below.
\<close>

primrec computeLevel :: "nat \<Rightarrow> host \<Rightarrow> formula_method \<times> phrase_method" where
  "computeLevel 0 h = ((\<lambda>props opts this. Pending), (\<lambda>props opts phrase. Pending))"
| "computeLevel (Suc n) h =
     (Formula_compute (fst (computeLevel n h)) (snd (computeLevel n h)) h,
      computePhraseWith
        (Formula_compute (fst (computeLevel n h)) (snd (computeLevel n h)) h) h)"

definition formulaCompute :: "nat \<Rightarrow> host \<Rightarrow> formula_method" where
  "formulaCompute n h = fst (computeLevel n h)"

definition phraseCompute :: "nat \<Rightarrow> host \<Rightarrow> phrase_method" where
  "phraseCompute n h = snd (computeLevel n h)"

section \<open>An example host\<close>

text \<open>
  A small stand-in for the evaluator and the platform, to run the model on examples: it
  evaluates a number literal, a quoted string and a lone symbol (through the scope, then
  the undefined-symbol hook) and fails on anything else; its dice always roll 1 and its
  only roll table is \<open>T\<close>.
\<close>

definition isNameStart :: "char \<Rightarrow> bool" where
  "isNameStart c = (isVarNameChar c \<and> \<not> isDigitIn 10 c \<and> c \<noteq> CHR ''-'')"

definition demoMath :: "callbacks \<Rightarrow> string \<Rightarrow> jsval obj \<Rightarrow> jsval outcome" where
  "demoMath cbs txt scope =
     (if txt \<noteq> [] \<and> list_all (isDigitIn 10) txt
      then Returns (Num (Fin (of_nat (digitsValue 10 txt))))
      else if txt \<noteq> [] \<and> isNameStart (hd txt) \<and>
              list_all (\<lambda>c. isVarNameChar c \<and> c \<noteq> CHR ''-'') txt
      then (case objGet scope txt of
              Some v \<Rightarrow> Returns v
            | None \<Rightarrow> cbOnUndefinedSymbol cbs txt)
      else if 2 \<le> length txt \<and> hd txt = quote \<and> last txt = quote \<and>
              quote \<notin> set (butlast (tl txt))
      then Returns (Str (butlast (tl txt)))
      else ThrowsError ''SyntaxError'')"

definition demoHost :: host where
  "demoHost =
     \<lparr>mathEvaluate = demoMath,
      symbolsInOrder = (\<lambda>cbs txt scope. Returns (ExplanationNode [] [] Undefined [])),
      fractionToString = (\<lambda>r. ''?''),
      runScript = (\<lambda>body. if body = ''return 1'' then Returns (Num (Fin 1))
                           else ThrowsError ''SyntaxError''),
      findTemplate = (\<lambda>n. False),
      templateDialog = (\<lambda>n. Pending),
      inputDialog = (\<lambda>specs. Returns (map (\<lambda>s. (inputName s, inputDefaultValue s)) specs)),
      evaluateDice = (\<lambda>txt. Returns \<lparr>rollTotal = Num (Fin 1), rollFormula = txt\<rparr>),
      drawTable = (\<lambda>n r. if n = ''T'' then Some (Returns [''entry'']) else None)\<rparr>"

definition noOptions :: options where
  "noOptions =
     \<lparr>reference = None, defaultValue = Undefined, localVarsOpt = None, textVarsOpt = None,
      rollsOpt = None, computeExplanation = False, availableKeys = [],
      triggerEntityProps = None\<rparr>"

section \<open>Properties\<close>

subsection \<open>Helper facts\<close>

lemma dropWhile_all: "list_all P s \<Longrightarrow> dropWhile P s = []"
  by (induction s) simp_all

lemma trimString_whitespace: "list_all isStrWhiteSpaceChar s \<Longrightarrow> trimString s = []"
  by (simp add: trimString_def dropWhile_all)

lemma StringToNumber_whitespace: "list_all isStrWhiteSpaceChar s \<Longrightarrow> StringToNumber s = Fin 0"
  by (simp add: StringToNumber_def trimString_whitespace)

lemma cast_boolean: "getNumberCastValue d (Bool b) = Bool b"
  by (simp add: getNumberCastValue_def isBoolean_def)

lemma cast_numeric_string:
  "StringToNumber s \<noteq> NaN \<Longrightarrow> getNumberCastValue d (Str s) = Num (StringToNumber s)"
  by (simp add: getNumberCastValue_def isBoolean_def ToNumber_def)

lemma cast_other_string: "StringToNumber s = NaN \<Longrightarrow> getNumberCastValue d (Str s) = Str s"
  by (simp add: getNumberCastValue_def isBoolean_def ToNumber_def coalesce_def nullish_def)

lemma StringToNumber_3: "StringToNumber ''3'' = Fin 3"
  by code_simp

lemma StringToNumber_abc: "StringToNumber ''abc'' = NaN"
  by code_simp

lemma ref_present:
  "k \<noteq> [] \<Longrightarrow> getProperty allValues k = v \<Longrightarrow> v \<noteq> Undefined \<Longrightarrow> v \<noteq> Null \<Longrightarrow>
   ref d keys f allValues k fb = Returns (getNumberCastValue d v)"
  by (cases v)
     (auto simp: ref_def Let_def getNumberCastValue_def isBoolean_def ToNumber_def
        coalesce_def nullish_def orNull_def)

lemma ref_undefined_available:
  "getProperty allValues k = Undefined \<Longrightarrow> k \<in> set keys \<Longrightarrow>
   \<exists>e. ref d keys f allValues k fb = ThrowsUncomputable e"
  by (simp add: ref_def Let_def)

lemma ref_undefined_default:
  "k \<noteq> [] \<Longrightarrow> getProperty allValues k = Undefined \<Longrightarrow> k \<notin> set keys \<Longrightarrow> \<not> nullish d \<Longrightarrow>
   ref d keys f allValues k fb = Returns d"
  by (simp add: ref_def Let_def getNumberCastValue_def isBoolean_def ToNumber_def
        coalesce_def nullish_def orNull_def)

lemma demo_syntax_error:
  "mathEvaluate demoHost (ctxCallbacks (staticContext [] noOptions None (newFormula ''1+'')))
     (ctxParsed (staticContext [] noOptions None (newFormula ''1+'')))
     (ctxScope (staticContext [] noOptions None (newFormula ''1+'')))
   = ThrowsError ''SyntaxError''"
  by code_simp

lemma demo_undefined_symbol:
  "mathEvaluate demoHost (ctxCallbacks (staticContext [] noOptions None (newFormula ''b'')))
     (ctxParsed (staticContext [] noOptions None (newFormula ''b'')))
     (ctxScope (staticContext [] noOptions None (newFormula ''b'')))
   = ThrowsUncomputable (UncomputableError ''Uncomputable token b'' ''b'' ''b'')"
  by code_simp

lemma bindOutcome_Returns:
  "bindOutcome r f = Returns y \<Longrightarrow> \<exists>x. r = Returns x \<and> f x = Returns y"
  by (cases r) (auto simp: bindOutcome_def)

lemma computeRollPhrase_frame:
  "computeRollPhrase recP h props txt st = Returns (s, st1) \<Longrightarrow>
   cRolls st1 = cRolls st \<and> cThis st1 = cThis st \<and> cFormula st1 = cFormula st"
  by (auto simp: computeRollPhrase_def dest!: bindOutcome_Returns)

lemma evaluateRoll_frame:
  assumes "evaluateRoll recP h props txt st = Returns (rr, st1)"
  shows "cRolls st1 = cRolls st \<and> cThis st1 = cThis st \<and> cFormula st1 = cFormula st \<and>
         (isTableDraw rr \<longleftrightarrow> startsWith txt ''#'')"
  using assms
  by (auto simp: evaluateRoll_def Let_def isTableDraw_def
        dest!: bindOutcome_Returns computeRollPhrase_frame
        split: if_splits option.splits)

lemma rollLoop_frame:
  "rollLoop recP h props toks st = Returns st' \<Longrightarrow>
   length (cRolls st') = length (cRolls st) + length (filter isDiceBlock toks) \<and>
   cThis st' = cThis st"
proof (induction toks arbitrary: st)
  case Nil
  then show ?case by simp
next
  case (Cons tok toks)
  show ?case
    using Cons.prems
    by (auto simp: Let_def isDiceBlock_def isTableDraw_def
        dest!: bindOutcome_Returns Cons.IH evaluateRoll_frame split: roll_result.splits)
qed

lemma computeStatic_fields:
  "Formula_computeStatic h props opts fa this = Returns out \<Longrightarrow>
   raw (formulaOut out) = raw this \<and> hidden (formulaOut out) = hidden this \<and>
   explanation (formulaOut out) = explanation this \<and>
   hasDice (formulaOut out) = (case rollsOpt opts of None \<Rightarrow> False | Some rs \<Rightarrow> rs \<noteq> []) \<and>
   rolls (formulaOut out) = (case rollsOpt opts of None \<Rightarrow> [] | Some rs \<Rightarrow> rs)"
  by (auto simp: Formula_computeStatic_def Let_def finishStatic_def staticContext_def
      split: outcome.splits option.splits)

lemma templateLoop_frame:
  "templateLoop h toks st = Returns st' \<Longrightarrow>
   cRolls st' = cRolls st \<and> raw (cThis st') = raw (cThis st) \<and>
   explanation (cThis st') = explanation (cThis st) \<and>
   hidden (cThis st') = (hidden (cThis st) \<or> toks \<noteq> [])"
proof (induction toks arbitrary: st)
  case Nil
  then show ?case by simp
next
  case (Cons tok toks)
  show ?case
    using Cons.prems
    by (auto simp: Let_def mergeUserData_def dest!: bindOutcome_Returns Cons.IH split: if_splits)
qed

lemma nestedResult_frame:
  "nestedResult recF props t st = Returns (v, st') \<Longrightarrow>
   cRolls st' = cRolls st \<and> cThis st' = cThis st \<and> cFormula st' = cFormula st"
  by (auto simp: nestedResult_def dest!: bindOutcome_Returns)

lemma choicesLoop_frame:
  "choicesLoop recF props cs vals st = Returns (vals', st') \<Longrightarrow>
   cRolls st' = cRolls st \<and> cThis st' = cThis st \<and> cFormula st' = cFormula st"
proof (induction cs arbitrary: vals st)
  case Nil
  then show ?case by simp
next
  case (Cons c cs)
  show ?case
    using Cons.prems
    by (auto dest!: bindOutcome_Returns Cons.IH nestedResult_frame split: option.splits)
qed

lemma userInputLoop_frame:
  "userInputLoop recF props toks acc st = Returns (acc', st') \<Longrightarrow>
   cRolls st' = cRolls st \<and> cThis st' = cThis st"
proof (induction toks arbitrary: acc st)
  case Nil
  then show ?case by simp
next
  case (Cons tok toks)
  show ?case
    using Cons.prems
    by (auto simp: Let_def
        dest!: bindOutcome_Returns Cons.IH nestedResult_frame choicesLoop_frame
        split: option.splits)
qed

lemma userInputs_frame:
  "userInputs recF h props st = Returns st' \<Longrightarrow> cRolls st' = cRolls st \<and> cThis st' = cThis st"
  by (auto simp: userInputs_def mergeUserData_def
      dest!: bindOutcome_Returns userInputLoop_frame split: if_splits)

lemma stripSigils_frame: "cRolls (stripSigils st) = cRolls st"
  by (simp add: stripSigils_def Let_def)

lemma beforeRolls_rolls:
  "beforeRolls recF h props opts this = Returns (tv, st2) \<Longrightarrow> cRolls st2 = []"
  by (auto simp: beforeRolls_def Let_def stripSigils_frame initialState_def
      dest!: bindOutcome_Returns templateLoop_frame userInputs_frame)

lemma textTokensFrom_prev:
  "prev \<noteq> Some backslash \<Longrightarrow> prev' \<noteq> Some backslash \<Longrightarrow>
   textTokensFrom prev s = textTokensFrom prev' s"
  by (cases s) auto

lemma textTokensFrom_skip:
  "c \<noteq> quote \<Longrightarrow> c \<noteq> backslash \<Longrightarrow> prev' \<noteq> Some backslash \<Longrightarrow>
   textTokensFrom prev (c # s) = textTokensFrom prev' s"
  using textTokensFrom_prev[of "Some c" prev' s] by simp

lemma textTokens_quote:
  "t \<in> set (textTokensFrom prev s) \<Longrightarrow> t \<noteq> [] \<and> hd t = quote"
  by (induction prev s rule: textTokensFrom.induct) (auto split: if_splits option.splits)

lemma getSubstitution_plain:
  "CHR ''$'' \<notin> set rep \<Longrightarrow> getSubstitution m b a rep = rep"
  by (induction m b a rep rule: getSubstitution.induct) auto

lemma digit_not_dollar: "(n::nat) < 10 \<Longrightarrow> char_of (48 + n) \<noteq> CHR ''$''"
proof
  assume n: "n < 10" and eq: "char_of (48 + n) = CHR ''$''"
  have "of_char (char_of (48 + n) :: char) = ((48 + n) mod 256 :: nat)" by simp
  with eq have "(36::nat) = (48 + n) mod 256" by simp
  with n show False by simp
qed

lemma natToString_no_dollar: "CHR ''$'' \<notin> set (natToString n)"
proof (induction n rule: natToString.induct)
  case (1 n)
  show ?case
  proof (cases "n < 10")
    case True
    then show ?thesis using digit_not_dollar[of n] by (subst natToString.simps) auto
  next
    case False
    have "n mod 10 < 10" by simp
    then have "char_of (48 + n mod 10) \<noteq> CHR ''$''" by (rule digit_not_dollar)
    with False 1 show ?thesis by (subst natToString.simps) auto
  qed
qed

lemma textRef_no_dollar: "CHR ''$'' \<notin> set (''_computedText_'' @ natToString n)"
  using natToString_no_dollar by simp

lemma splitAtFirst_prefix:
  "tok \<noteq> [] \<Longrightarrow> hd tok \<notin> set p \<Longrightarrow>
   splitAtFirst tok (p @ f) = map_option (\<lambda>(b, a). (p @ b, a)) (splitAtFirst tok f)"
proof (induction p)
  case Nil
  then show ?case by (simp add: option.map_ident split_def)
next
  case (Cons c p)
  then have "take (length tok) (c # p @ f) \<noteq> tok"
    by (cases tok) auto
  with Cons show ?case
    by (auto simp: option.map_comp comp_def split_def)
qed

lemma replaceFirst_prefix:
  "tok \<noteq> [] \<Longrightarrow> hd tok \<notin> set p \<Longrightarrow> CHR ''$'' \<notin> set rep \<Longrightarrow>
   replaceFirst (p @ f) tok rep = p @ replaceFirst f tok rep"
  by (auto simp: replaceFirst_def splitAtFirst_prefix getSubstitution_plain split: option.splits)

lemma textVarsLoop_prefix:
  "(\<forall>t \<in> set toks. t \<noteq> [] \<and> hd t = quote) \<Longrightarrow> quote \<notin> set p \<Longrightarrow>
   textVarsLoop toks (p @ f, tv) =
     (p @ fst (textVarsLoop toks (f, tv)), snd (textVarsLoop toks (f, tv)))"
proof (induction toks arbitrary: f tv)
  case Nil
  then show ?case by simp
next
  case (Cons t toks)
  then have t: "t \<noteq> []" "hd t \<notin> set p" by auto
  show ?case
    using Cons
    by (simp add: Let_def replaceFirst_prefix[OF t textRef_no_dollar] del: append.simps)
qed

lemma handleTextVars_prefix:
  assumes "quote \<notin> set p" and "backslash \<notin> set p"
  shows "handleTextVars (p @ rest) tv =
           (p @ fst (handleTextVars rest tv), snd (handleTextVars rest tv))"
proof -
  have "textTokensFrom prev (p @ rest) = textTokensFrom None rest" if "prev \<noteq> Some backslash" for prev
    using assms that
  proof (induction p arbitrary: prev)
    case Nil
    then show ?case using textTokensFrom_prev[of prev None rest] by simp
  next
    case (Cons c p)
    then have c: "c \<noteq> quote" "c \<noteq> backslash" by auto
    then have "textTokensFrom prev ((c # p) @ rest) = textTokensFrom (Some c) (p @ rest)"
      by simp
    moreover have "textTokensFrom (Some c) (p @ rest) = textTokensFrom None rest"
      using Cons c by simp
    ultimately show ?case by simp
  qed
  then have "textTokens (p @ rest) = textTokens rest"
    by (simp add: textTokens_def)
  moreover have "\<forall>t \<in> set (textTokens rest). t \<noteq> [] \<and> hd t = quote"
    using textTokens_quote by (auto simp: textTokens_def)
  ultimately show ?thesis
    using textVarsLoop_prefix[OF _ assms(1)] by (simp add: handleTextVars_def)
qed

lemma stripSigils_fields:
  "cFormula (stripSigils st) =
     (let f1 = (if startsWith (cFormula st) ''#'' then drop 1 (cFormula st) else cFormula st)
      in if startsWith f1 ''!'' then drop 1 f1 else f1)
   \<and> hidden (cThis (stripSigils st)) = (hidden (cThis st) \<or> startsWith (cFormula st) ''#'')
   \<and> explanation (cThis (stripSigils st)) =
       (explanation (cThis st) \<and>
        \<not> startsWith (if startsWith (cFormula st) ''#'' then drop 1 (cFormula st)
                       else cFormula st) ''!'')
   \<and> raw (cThis (stripSigils st)) = raw (cThis st)"
  by (simp add: stripSigils_def Let_def)

lemma compute_flags:
  assumes "Formula_compute recF recP h props opts this = Returns out"
  shows "raw (formulaOut out) = raw this \<and>
         explanation (formulaOut out) = explanation (cThis (stripSigils (initialState opts this))) \<and>
         hidden (formulaOut out) =
           (hidden (cThis (stripSigils (initialState opts this))) \<or>
            delimitedTokens ''?#{'' (CHR ''}'') (cFormula (stripSigils (initialState opts this))) \<noteq> [])"
proof -
  from assms obtain tv st3 out1 where
    pre: "preprocess recF recP h props opts this = Returns (tv, st3)" and
    stat: "Formula_computeStatic h
               (spread props (case triggerEntityProps (cOptions st3) of None \<Rightarrow> [] | Some p \<Rightarrow> p))
               ((cOptions st3)\<lparr>localVarsOpt := Some (localContent st3),
                             textVarsOpt := Some tv,
                             rollsOpt := Some (cRolls st3),
                             computeExplanation :=
                               (computeExplanation (cOptions st3) \<and> explanation (cThis st3))\<rparr>)
               (Some (cFormula st3)) (cThis st3) = Returns out1" and
    out: "formulaOut out = formulaOut out1"
    by (auto simp: Formula_compute_def dest!: bindOutcome_Returns)
  from pre obtain st2 where
    br: "beforeRolls recF h props opts this = Returns (tv, st2)" and
    rl: "rollLoop recP h props (rollTokens (cFormula st2)) st2 = Returns st3"
    by (auto simp: preprocess_def dest!: bindOutcome_Returns)
  define st0 where "st0 = stripSigils (initialState opts this)"
  from br obtain st1 where
    tl: "templateLoop h (delimitedTokens ''?#{'' (CHR ''}'') (cFormula st0)) st0 = Returns st1" and
    ui: "userInputs recF h props st1 = Returns st2"
    by (auto simp: beforeRolls_def Let_def st0_def dest!: bindOutcome_Returns)
  have "raw (cThis st0) = raw this"
    by (simp add: st0_def stripSigils_fields initialState_def)
  with templateLoop_frame[OF tl] userInputs_frame[OF ui] rollLoop_frame[OF rl]
    computeStatic_fields[OF stat] out
  show ?thesis by (simp add: st0_def)
qed

subsection \<open>Failures of the evaluation in \<open>Formula.computeStatic\<close>\<close>

text \<open>
  Claim C1. Whatever the evaluator, the properties, the options and the formula: when
  parsing or evaluating the prepared text throws an error that is not an
  \<open>UncomputableError\<close>, \<open>computeStatic\<close> returns, the result of the formula is the string
  \<open>ERROR\<close> and the error is written to the console; when it throws an
  \<open>UncomputableError\<close>, \<open>computeStatic\<close> throws that same error.
\<close>

theorem computeStatic_failures:
  "(mathEvaluate h (ctxCallbacks (staticContext props opts fa this))
       (ctxParsed (staticContext props opts fa this))
       (ctxScope (staticContext props opts fa this)) = ThrowsError err \<longrightarrow>
     (\<exists>out. Formula_computeStatic h props opts fa this = Returns out \<and>
            result (formulaOut out) = Str ''ERROR'' \<and> logOut out = [ConsoleError err]))
   \<and>
   (mathEvaluate h (ctxCallbacks (staticContext props2 opts2 fa2 this2))
       (ctxParsed (staticContext props2 opts2 fa2 this2))
       (ctxScope (staticContext props2 opts2 fa2 this2)) = ThrowsUncomputable e \<longrightarrow>
     Formula_computeStatic h props2 opts2 fa2 this2 = ThrowsUncomputable e)"
  by (simp add: Formula_computeStatic_def evaluateFormula_def bindOutcome_def
      finishStatic_def Let_def)

theorem computeStatic_failures_witness:
  "(\<exists>out. Formula_computeStatic demoHost [] noOptions None (newFormula ''1+'') = Returns out \<and>
          result (formulaOut out) = Str ''ERROR'' \<and>
          logOut out = [ConsoleError ''SyntaxError''])
   \<and> Formula_computeStatic demoHost [] noOptions None (newFormula ''b'')
       = ThrowsUncomputable (UncomputableError ''Uncomputable token b'' ''b'' ''b'')"
  using computeStatic_failures[where h = demoHost and props = "[]" and opts = noOptions
      and fa = None and this = "newFormula ''1+''" and err = "''SyntaxError''"
      and ?props2.0 = "[]" and ?opts2.0 = noOptions and ?fa2.0 = None
      and ?this2.0 = "newFormula ''b''"
      and e = "UncomputableError ''Uncomputable token b'' ''b'' ''b''"]
    demo_syntax_error demo_undefined_symbol
  by simp

subsection \<open>Nested script blocks\<close>

text \<open>
  Claim C2. On the text \<open>%{a%{b}%c}%\<close> the extractor closes the script block at the first
  \<open>}%\<close>, where the script counter is still 1: the test reads the formula counter. The
  block it returns is \<open>%{a%{b}%\<close>, not the balanced block. The formula family, whose test
  reads its own counter, returns the whole of \<open>${a${b}$c}$\<close>.
\<close>

theorem extractFormulas_nested_script:
  "extractFormulas ''%{a%{b}%c}%'' = [''%{a%{b}%''] \<and>
   extractFormulas ''${a${b}$c}$'' = [''${a${b}$c}$'']"
  by code_simp

subsection \<open>Numeric coercion\<close>

text \<open>
  Claim C3, as amended. A boolean passes through unchanged. A string that reads as a number
  becomes that number (\<open>"3"\<close> becomes 3). Any other string stays as it is, whatever the
  default value and the available keys, also when looked up with \<open>ref\<close>. When the value
  looked up is \<open>undefined\<close> and the key is one of the available keys, \<open>ref\<close> throws an
  \<open>UncomputableError\<close>, default value or not. When the value is \<open>undefined\<close>, the key is
  not one of the available keys and a default value is set, \<open>ref\<close> returns the default
  value.
\<close>

theorem numeric_coercion:
  "getNumberCastValue d (Bool b) = Bool b
   \<and> (StringToNumber s1 \<noteq> NaN \<longrightarrow> getNumberCastValue d (Str s1) = Num (StringToNumber s1))
   \<and> getNumberCastValue d (Str ''3'') = Num (Fin 3)
   \<and> (StringToNumber s2 = NaN \<longrightarrow> getNumberCastValue d (Str s2) = Str s2)
   \<and> (StringToNumber s2 = NaN \<and> k1 \<noteq> [] \<and> getProperty allValues1 k1 = Str s2 \<longrightarrow>
        ref d keys1 f allValues1 k1 fb = Returns (Str s2))
   \<and> (getProperty allValues2 k2 = Undefined \<and> k2 \<in> set keys2 \<longrightarrow>
        (\<exists>e. ref d keys2 f allValues2 k2 fb = ThrowsUncomputable e))
   \<and> (k3 \<noteq> [] \<and> getProperty allValues3 k3 = Undefined \<and> k3 \<notin> set keys3 \<and> \<not> nullish d3 \<longrightarrow>
        ref d3 keys3 f allValues3 k3 fb = Returns d3)"
  using cast_boolean cast_numeric_string cast_other_string[of s2 d] StringToNumber_3
    ref_present[of k1 allValues1 "Str s2" d keys1 f fb] ref_undefined_available
    ref_undefined_default
  by simp

theorem numeric_coercion_witness:
  "StringToNumber ''3'' \<noteq> NaN \<and> getNumberCastValue Undefined (Str ''3'') = Num (Fin 3)
   \<and> StringToNumber ''abc'' = NaN \<and> getNumberCastValue Undefined (Str ''abc'') = Str ''abc''
   \<and> ref Undefined [] ''f'' [(''k'', Str ''abc'')] ''k'' Undefined = Returns (Str ''abc'')
   \<and> (\<exists>e. ref Undefined [''k''] ''f'' [] ''k'' Undefined = ThrowsUncomputable e)
   \<and> ref (Num (Fin 7)) [] ''f'' [] ''k'' Undefined = Returns (Num (Fin 7))"
  using numeric_coercion[where d = Undefined and b = True and ?s1.0 = "''3''"
      and ?s2.0 = "''abc''" and ?k1.0 = "''k''" and ?allValues1.0 = "[(''k'', Str ''abc'')]"
      and ?keys1.0 = "[]" and f = "''f''" and fb = Undefined and ?allValues2.0 = "[]"
      and ?k2.0 = "''k''" and ?keys2.0 = "[''k'']" and ?k3.0 = "''k''"
      and ?allValues3.0 = "[]" and ?keys3.0 = "[]" and ?d3.0 = "Num (Fin 7)"]
    StringToNumber_3 StringToNumber_abc
  by (simp add: getProperty_def objGet_def nullish_def)

text \<open>
  With the default value 0 and the key \<open>k\<close> among the available keys, \<open>ref\<close> does not
  return the default: it throws when \<open>k\<close> has no value, and returns the string when the
  value of \<open>k\<close> is \<open>"abc"\<close>.
\<close>

theorem default_not_returned:
  "ref (Num (Fin 0)) [''k''] ''f'' [] ''k'' Undefined
     = ThrowsUncomputable (UncomputableError ''Uncomputable token ref(k)'' ''ref(k)'' ''f'')
   \<and> ref (Num (Fin 0)) [''k''] ''f'' [(''k'', Str ''abc'')] ''k'' Undefined
     = Returns (Str ''abc'')"
  by code_simp

subsection \<open>Empty strings and \<open>null\<close>\<close>

text \<open>
  Claim C10. A string made of white space only (the empty string included) and the value
  \<open>null\<close> are coerced to the number 0, whatever the default value: by
  \<open>getNumberCastValue\<close> itself, and so by \<open>ref\<close>, \<open>sameRow\<close> and \<open>first\<close> when the value they
  find is such a string, and by \<open>ref\<close> when it is \<open>null\<close>.
\<close>

theorem empty_values_coerce_to_zero:
  "(list_all isStrWhiteSpaceChar s \<longrightarrow> getNumberCastValue d (Str s) = Num (Fin 0))
   \<and> getNumberCastValue d Null = Num (Fin 0)
   \<and> (list_all isStrWhiteSpaceChar s \<and> k \<noteq> [] \<and> getProperty allValues k = Str s \<longrightarrow>
        ref d keys f allValues k fb = Returns (Num (Fin 0)))
   \<and> (list_all isStrWhiteSpaceChar s \<and> getProperty allValues (r @ ''.'' @ c) = Str s \<longrightarrow>
        sameRow d r f allValues c fb = Returns (Num (Fin 0)))
   \<and> (list_all isStrWhiteSpaceChar s \<longrightarrow> first d (Str s # vs) fb = Num (Fin 0))
   \<and> (k2 \<noteq> [] \<and> getProperty allValues2 k2 = Null \<longrightarrow>
        ref d keys f allValues2 k2 fb = Returns (Num (Fin 0)))"
  using StringToNumber_whitespace[of s]
  by (auto simp: getNumberCastValue_def isBoolean_def ToNumber_def coalesce_def nullish_def
      ref_def sameRow_def first_def Let_def orNull_def)

theorem empty_values_coerce_to_zero_witness:
  "list_all isStrWhiteSpaceChar '' ''
   \<and> getNumberCastValue (Num (Fin 7)) (Str '' '') = Num (Fin 0)
   \<and> ref (Num (Fin 7)) [] ''f'' [(''k'', Str '' ''), (''t.0.c'', Str '' '')] ''k'' Undefined
       = Returns (Num (Fin 0))
   \<and> sameRow (Num (Fin 7)) ''t.0'' ''f'' [(''k'', Str '' ''), (''t.0.c'', Str '' '')] ''c''
       Undefined = Returns (Num (Fin 0))
   \<and> first (Num (Fin 7)) [Str '' ''] Undefined = Num (Fin 0)
   \<and> ref (Num (Fin 7)) [] ''f'' [(''n'', Null)] ''n'' Undefined = Returns (Num (Fin 0))"
  using empty_values_coerce_to_zero[where s = "'' ''" and d = "Num (Fin 7)" and k = "''k''"
      and allValues = "[(''k'', Str '' ''), (''t.0.c'', Str '' '')]" and keys = "[]"
      and f = "''f''" and fb = Undefined and r = "''t.0''" and c = "''c''" and vs = "[]"
      and ?k2.0 = "''n''" and ?allValues2.0 = "[(''n'', Null)]"]
  by (simp add: getProperty_def objGet_def isStrWhiteSpaceChar_def)

subsection \<open>Dice in a formula\<close>

text \<open>
  Claim C9, as amended. When \<open>Formula.compute\<close> returns, \<open>hasDice\<close> is true if and only
  if the formula text in which the roll blocks are looked for (the raw text after the
  isolation of text literals, the stripping of sigils and the substitution of prompts)
  holds at least one roll block that is a dice block: a roll-table draw \<open>[#Table|selector]\<close>
  adds nothing to the roll list and does not make \<open>hasDice\<close> true.
\<close>

theorem hasDice_iff_dice_block:
  assumes "Formula_compute recF recP h props opts this = Returns out"
  shows "\<exists>tv st2. beforeRolls recF h props opts this = Returns (tv, st2) \<and>
           (hasDice (formulaOut out) \<longleftrightarrow> list_ex isDiceBlock (rollTokens (cFormula st2)))"
proof -
  from assms obtain tv st3 out1 where
    pre: "preprocess recF recP h props opts this = Returns (tv, st3)" and
    stat: "Formula_computeStatic h
               (spread props (case triggerEntityProps (cOptions st3) of None \<Rightarrow> [] | Some p \<Rightarrow> p))
               ((cOptions st3)\<lparr>localVarsOpt := Some (localContent st3),
                             textVarsOpt := Some tv,
                             rollsOpt := Some (cRolls st3),
                             computeExplanation :=
                               (computeExplanation (cOptions st3) \<and> explanation (cThis st3))\<rparr>)
               (Some (cFormula st3)) (cThis st3) = Returns out1" and
    out: "formulaOut out = formulaOut out1"
    by (auto simp: Formula_compute_def dest!: bindOutcome_Returns)
  from pre obtain st2 where
    br: "beforeRolls recF h props opts this = Returns (tv, st2)" and
    rl: "rollLoop recP h props (rollTokens (cFormula st2)) st2 = Returns st3"
    by (auto simp: preprocess_def dest!: bindOutcome_Returns)
  have "hasDice (formulaOut out) = (cRolls st3 \<noteq> [])"
    using computeStatic_fields[OF stat] out by simp
  moreover have "length (cRolls st3) = length (filter isDiceBlock (rollTokens (cFormula st2)))"
    using rollLoop_frame[OF rl] beforeRolls_rolls[OF br] by simp
  moreover have "(filter isDiceBlock (rollTokens (cFormula st2)) \<noteq> [])
      \<longleftrightarrow> list_ex isDiceBlock (rollTokens (cFormula st2))"
    by (simp add: list_ex_iff filter_empty_conv)
  ultimately have "hasDice (formulaOut out) \<longleftrightarrow> list_ex isDiceBlock (rollTokens (cFormula st2))"
    by (metis length_0_conv)
  with br show ?thesis by blast
qed

theorem hasDice_iff_dice_block_witness:
  "Formula_compute (formulaCompute 1 demoHost) (phraseCompute 1 demoHost) demoHost [] noOptions
      (newFormula ''[1d1]'')
     = Returns
         \<lparr>formulaOut =
            \<lparr>raw = ''[1d1]'', result = Num (Fin 1), localVars = [], parsed = Some ''1'',
             hasDice = True, tokens = [],
             rolls = [(''[1d1]'', \<lparr>rollTotal = Num (Fin 1), rollFormula = ''1d1''\<rparr>)],
             hidden = False, explanation = True\<rparr>,
          optionsOut = noOptions, logOut = []\<rparr>
   \<and> (\<exists>tv st2.
         beforeRolls (formulaCompute 1 demoHost) demoHost [] noOptions (newFormula ''[1d1]'')
           = Returns (tv, st2) \<and>
         list_ex isDiceBlock (rollTokens (cFormula st2)))"
proof -
  have run: "Formula_compute (formulaCompute 1 demoHost) (phraseCompute 1 demoHost) demoHost []
      noOptions (newFormula ''[1d1]'')
     = Returns
         \<lparr>formulaOut =
            \<lparr>raw = ''[1d1]'', result = Num (Fin 1), localVars = [], parsed = Some ''1'',
             hasDice = True, tokens = [],
             rolls = [(''[1d1]'', \<lparr>rollTotal = Num (Fin 1), rollFormula = ''1d1''\<rparr>)],
             hidden = False, explanation = True\<rparr>,
          optionsOut = noOptions, logOut = []\<rparr>"
    by code_simp
  from hasDice_iff_dice_block[OF run] run show ?thesis by simp
qed

text \<open>
  The formula \<open>[#T]\<close> holds a roll block, a draw from the roll table \<open>T\<close>; computed, its
  roll list is empty and \<open>hasDice\<close> is false.
\<close>

theorem table_draw_has_no_dice:
  "(case formulaCompute 2 demoHost [] noOptions (newFormula ''[#T]'') of
      Returns out \<Rightarrow>
        Some (hasDice (formulaOut out), rolls (formulaOut out), result (formulaOut out))
    | _ \<Rightarrow> None)
   = Some (False, [], Str ''entry'')"
  by code_simp

subsection \<open>Leading sigils\<close>

text \<open>
  Claim C6, as amended. For a formula whose raw text begins with \<open>#!\<close>, \<open>compute\<close> strips
  both sigils before any further processing (the text handed on is the rest of the raw
  text with its text literals isolated) and, when it returns, the formula is hidden and
  not explained. For a raw text that begins with \<open>!#\<close>, only \<open>!\<close> is stripped: the text
  handed on still begins with \<open>#\<close>, the sigils leave the hidden flag as it was, and the
  formula is not explained. Computing the same instance again leaves both flags as the
  first computation set them.
\<close>

theorem leading_sigils:
  "(raw this = ''#!'' @ rest \<longrightarrow>
      cFormula (stripSigils (initialState opts this)) = fst (handleTextVars rest [])
      \<and> (Formula_compute recF recP h props opts this = Returns out \<longrightarrow>
           hidden (formulaOut out) \<and> \<not> explanation (formulaOut out)))
   \<and> (raw this2 = ''!#'' @ rest2 \<longrightarrow>
      cFormula (stripSigils (initialState opts this2)) = ''#'' @ fst (handleTextVars rest2 [])
      \<and> hidden (cThis (stripSigils (initialState opts this2))) = hidden this2
      \<and> (Formula_compute recF recP h props opts this2 = Returns out2 \<longrightarrow>
           \<not> explanation (formulaOut out2)))
   \<and> (Formula_compute recF recP h props opts this3 = Returns out3 \<and>
      Formula_compute recF' recP' h' props' opts' (formulaOut out3) = Returns out4 \<longrightarrow>
        hidden (formulaOut out4) = hidden (formulaOut out3) \<and>
        explanation (formulaOut out4) = explanation (formulaOut out3))"
proof (intro conjI impI)
  assume r: "raw this = ''#!'' @ rest"
  have iso: "fst (handleTextVars (raw this) []) = ''#!'' @ fst (handleTextVars rest [])"
    unfolding r
    by (subst handleTextVars_prefix) (simp_all add: quote_def backslash_def)
  show "cFormula (stripSigils (initialState opts this)) = fst (handleTextVars rest [])"
    by (simp add: stripSigils_fields initialState_def iso startsWith_def Let_def)
  assume "Formula_compute recF recP h props opts this = Returns out"
  from compute_flags[OF this]
  show "hidden (formulaOut out)" and "\<not> explanation (formulaOut out)"
    by (simp_all add: stripSigils_fields initialState_def iso startsWith_def)
next
  assume r: "raw this2 = ''!#'' @ rest2"
  have iso: "fst (handleTextVars (raw this2) []) = ''!#'' @ fst (handleTextVars rest2 [])"
    unfolding r
    by (subst handleTextVars_prefix) (simp_all add: quote_def backslash_def)
  show "cFormula (stripSigils (initialState opts this2)) = ''#'' @ fst (handleTextVars rest2 [])"
    by (simp add: stripSigils_fields initialState_def iso startsWith_def Let_def)
  show "hidden (cThis (stripSigils (initialState opts this2))) = hidden this2"
    by (simp add: stripSigils_fields initialState_def iso startsWith_def)
  assume "Formula_compute recF recP h props opts this2 = Returns out2"
  from compute_flags[OF this]
  show "\<not> explanation (formulaOut out2)"
    by (simp add: stripSigils_fields initialState_def iso startsWith_def)
next
  assume a: "Formula_compute recF recP h props opts this3 = Returns out3 \<and>
      Formula_compute recF' recP' h' props' opts' (formulaOut out3) = Returns out4"
  note f1 = compute_flags[OF conjunct1[OF a]]
  note f2 = compute_flags[OF conjunct2[OF a]]
  from f1 have same: "cFormula (initialState opts' (formulaOut out3)) = cFormula (initialState opts this3)"
    by (simp add: initialState_def)
  show "hidden (formulaOut out4) = hidden (formulaOut out3)"
    using f1 f2 same by (auto simp: stripSigils_fields initialState_def Let_def)
  show "explanation (formulaOut out4) = explanation (formulaOut out3)"
    using f1 f2 same by (auto simp: stripSigils_fields initialState_def Let_def)
qed

theorem leading_sigils_witness:
  "raw (newFormula ''#!1'') = ''#!'' @ ''1''
   \<and> cFormula (stripSigils (initialState noOptions (newFormula ''#!1'')))
       = fst (handleTextVars ''1'' [])
   \<and> Formula_compute (formulaCompute 0 demoHost) (phraseCompute 0 demoHost) demoHost []
         noOptions (newFormula ''#!1'')
       = Returns
         \<lparr>formulaOut =
            \<lparr>raw = ''#!1'', result = Num (Fin 1), localVars = [], parsed = Some ''1'',
             hasDice = False, tokens = [], rolls = [], hidden = True, explanation = False\<rparr>,
          optionsOut = noOptions, logOut = []\<rparr>
   \<and> raw (newFormula ''!#1'') = ''!#'' @ ''1''
   \<and> cFormula (stripSigils (initialState noOptions (newFormula ''!#1'')))
       = ''#'' @ fst (handleTextVars ''1'' [])
   \<and> Formula_compute (formulaCompute 0 demoHost) (phraseCompute 0 demoHost) demoHost []
         noOptions (newFormula ''!#1'')
       = Returns
         \<lparr>formulaOut =
            \<lparr>raw = ''!#1'', result = Str ''ERROR'', localVars = [], parsed = Some ''#1'',
             hasDice = False, tokens = [], rolls = [], hidden = False, explanation = False\<rparr>,
          optionsOut = noOptions, logOut = [ConsoleError ''SyntaxError'']\<rparr>
   \<and> Formula_compute (formulaCompute 0 demoHost) (phraseCompute 0 demoHost) demoHost []
         noOptions
         (formulaOut
           \<lparr>formulaOut =
            \<lparr>raw = ''#!1'', result = Num (Fin 1), localVars = [], parsed = Some ''1'',
             hasDice = False, tokens = [], rolls = [], hidden = True, explanation = False\<rparr>,
          optionsOut = noOptions, logOut = []\<rparr>)
       = Returns
         \<lparr>formulaOut =
            \<lparr>raw = ''#!1'', result = Num (Fin 1), localVars = [], parsed = Some ''1'',
             hasDice = False, tokens = [], rolls = [], hidden = True, explanation = False\<rparr>,
          optionsOut = noOptions, logOut = []\<rparr>"
proof -
  have run1: "Formula_compute (formulaCompute 0 demoHost) (phraseCompute 0 demoHost) demoHost []
         noOptions (newFormula ''#!1'')
       = Returns
         \<lparr>formulaOut =
            \<lparr>raw = ''#!1'', result = Num (Fin 1), localVars = [], parsed = Some ''1'',
             hasDice = False, tokens = [], rolls = [], hidden = True, explanation = False\<rparr>,
          optionsOut = noOptions, logOut = []\<rparr>"
    by code_simp
  have run2: "Formula_compute (formulaCompute 0 demoHost) (phraseCompute 0 demoHost) demoHost []
         noOptions (newFormula ''!#1'')
       = Returns
         \<lparr>formulaOut =
            \<lparr>raw = ''!#1'', result = Str ''ERROR'', localVars = [], parsed = Some ''#1'',
             hasDice = False, tokens = [], rolls = [], hidden = False, explanation = False\<rparr>,
          optionsOut = noOptions, logOut = [ConsoleError ''SyntaxError'']\<rparr>"
    by code_simp
  have run3: "Formula_compute (formulaCompute 0 demoHost) (phraseCompute 0 demoHost) demoHost []
         noOptions
         (formulaOut
           \<lparr>formulaOut =
            \<lparr>raw = ''#!1'', result = Num (Fin 1), localVars = [], parsed = Some ''1'',
             hasDice = False, tokens = [], rolls = [], hidden = True, explanation = False\<rparr>,
          optionsOut = noOptions, logOut = []\<rparr>)
       = Returns
         \<lparr>formulaOut =
            \<lparr>raw = ''#!1'', result = Num (Fin 1), localVars = [], parsed = Some ''1'',
             hasDice = False, tokens = [], rolls = [], hidden = True, explanation = False\<rparr>,
          optionsOut = noOptions, logOut = []\<rparr>"
    by code_simp
  have r1: "raw (newFormula ''#!1'') = ''#!'' @ ''1''"
    and r2: "raw (newFormula ''!#1'') = ''!#'' @ ''1''"
    by (simp_all add: newFormula_def)
  from leading_sigils[where this = "newFormula ''#!1''" and rest = "''1''" and opts = noOptions
      and ?this2.0 = "newFormula ''!#1''" and ?rest2.0 = "''1''"] r1 r2
  have "cFormula (stripSigils (initialState noOptions (newFormula ''#!1'')))
          = fst (handleTextVars ''1'' [])"
    and "cFormula (stripSigils (initialState noOptions (newFormula ''!#1'')))
          = ''#'' @ fst (handleTextVars ''1'' [])"
    by simp_all
  with run1 run2 run3 r1 r2 show ?thesis by simp
qed

text \<open>
  The formula \<open>!#1\<close>: computed, it is not hidden, and the text that was parsed is \<open>#1\<close>.
\<close>

theorem sigils_other_order:
  "(case formulaCompute 1 demoHost [] noOptions (newFormula ''!#1'') of
      Returns out \<Rightarrow>
        Some (hidden (formulaOut out), explanation (formulaOut out), parsed (formulaOut out))
    | _ \<Rightarrow> None)
   = Some (False, False, Some ''#1'')"
  by code_simp

subsection \<open>Isolating text literals twice\<close>

text \<open>
  Claim C8. Take the text made of the literal \<open>x\<close>, the characters \<open>a\<close>, backslash, quote,
  \<open>b\<close>, quote, an empty literal, and the literal \<open>a\<close>, backslash, quote, \<open>b\<close>. Only the last
  literal holds a quote. A first run replaces the first occurrence of its text, which
  begins at the closing quote of the first literal, and leaves the literal itself in place.
  A second run on the text and map of the first finds the literal again and adds
  \<open>_computedText_2\<close>: it returns neither the text nor the map unchanged.
\<close>

theorem handleTextVars_not_idempotent:
  "handleTextVars
     ([quote] @ ''x'' @ [quote] @ ''a'' @ [backslash, quote] @ ''b'' @ [quote, quote, quote]
        @ ''a'' @ [backslash, quote] @ ''b'' @ [quote]) []
   = ([quote] @ ''x_computedText_1'' @ [quote, quote] @ ''a'' @ [backslash, quote] @ ''b''
        @ [quote],
      [(''_computedText_1'', ''a'' @ [quote] @ ''b'')])
   \<and> handleTextVars
       ([quote] @ ''x_computedText_1'' @ [quote, quote] @ ''a'' @ [backslash, quote] @ ''b''
          @ [quote])
       [(''_computedText_1'', ''a'' @ [quote] @ ''b'')]
   = ([quote] @ ''x_computedText_1'' @ [quote] @ ''_computedText_2'',
      [(''_computedText_1'', ''a'' @ [quote] @ ''b''),
       (''_computedText_2'', ''a'' @ [quote] @ ''b'')])"
  by code_simp

subsection \<open>Placeholder ids of nested blocks\<close>

text \<open>
  Claim C4. In the phrase \<open>${x:=${2}$}$ and ${x}$\<close> the id \<open>form0\<close> is taken for the outer
  block before its inner block is processed, and the inner block takes \<open>form0\<close> again: the
  id is bound first to the formula \<open>2\<close>, then to the formula \<open>x:=2\<close>, which replaces it among
  the computed formulas. The next block is \<open>form2\<close>; no block is \<open>form1\<close>.
\<close>

theorem nested_block_shares_id:
  "(case ComputablePhrase_computeStatic demoHost [] noOptions ''${x:=${2}$}$ and ${x}$'' of
      Returns p \<Rightarrow>
        Some (buildPhrase p,
              map (\<lambda>c. (callId c, raw (callFormula c))) (phraseCalls p),
              map (\<lambda>(k, f). (k, raw f)) (phraseFormulas p))
    | _ \<Rightarrow> None)
   = Some (''form0 and form2'',
           [(''form0'', ''2''), (''form0'', ''x:=2''), (''form2'', ''x'')],
           [(''form0'', ''x:=2''), (''form2'', ''x'')])"
  by code_simp

end
